theory Spec2Isabelle
  imports Complex_Main "HOL-Library.Sublist"
begin

section \<open>JavaScript values and effects\<close>

text \<open>
  The plugin is TypeScript. Its values are modelled as follows.
  \<^item> A thrown \<^verbatim>\<open>Error\<close> is a value of \<open>error\<close> carrying the message.
  \<^item> An awaited call either returns, throws (its promise rejects) or never settles.
  \<^item> A \<^verbatim>\<open>number\<close> holding a time in milliseconds is an integer or \<^verbatim>\<open>NaN\<close>; a
    confidence score is a real number (rounding of doubles is not modelled).
  \<^item> A string is a list of UTF-16 code units, of which the type \<open>char\<close> holds those
    below 256 (the code points U+0000 to U+00FF); a string with a code unit above
    that range is outside the model.
\<close>

datatype error = Error string

datatype 'a outcome = Returns 'a | Throws error | Hangs

datatype jsnumber = Num int | NaN

text \<open>Truthiness of a number: \<^verbatim>\<open>0\<close> and \<^verbatim>\<open>NaN\<close> are falsy.\<close>

fun truthyNumber :: "jsnumber \<Rightarrow> bool" where
  "truthyNumber (Num n) = (n \<noteq> 0)"
| "truthyNumber NaN = False"

text \<open>\<^verbatim>\<open>x + k\<close> for an integer constant \<open>k\<close>.\<close>

fun plusNumber :: "jsnumber \<Rightarrow> int \<Rightarrow> jsnumber" where
  "plusNumber (Num n) k = Num (n + k)"
| "plusNumber NaN k = NaN"

subsection \<open>Strings\<close>

text \<open>
  The white space and line terminators that \<^verbatim>\<open>trim\<close> strips, among the code units
  below 256: tab, line feed, vertical tab, form feed, carriage return, space and the
  no-break space U+00A0.
\<close>

definition isWhiteSpace :: "char \<Rightarrow> bool" where
  "isWhiteSpace c =
     (c \<in> set [CHR 0x20, CHR 0x09, CHR 0x0A, CHR 0x0B, CHR 0x0C, CHR 0x0D, CHR 0xA0])"

definition isDigit :: "char \<Rightarrow> bool" where
  "isDigit c = (c \<in> set ''0123456789'')"

text \<open>\<^verbatim>\<open>s.trim()\<close>\<close>

definition trim :: "string \<Rightarrow> string" where
  "trim s = rev (dropWhile isWhiteSpace (rev (dropWhile isWhiteSpace s)))"

text \<open>
  The upper case letters below 256 and their lower case: the ASCII letters, and the
  letters U+00C0 to U+00DE without the multiplication sign U+00D7.
\<close>

definition upperCaseLetters :: string where
  "upperCaseLetters =
     ''ABCDEFGHIJKLMNOPQRSTUVWXYZ'' @
     [CHR 0xC0, CHR 0xC1, CHR 0xC2, CHR 0xC3, CHR 0xC4, CHR 0xC5, CHR 0xC6, CHR 0xC7,
      CHR 0xC8, CHR 0xC9, CHR 0xCA, CHR 0xCB, CHR 0xCC, CHR 0xCD, CHR 0xCE, CHR 0xCF,
      CHR 0xD0, CHR 0xD1, CHR 0xD2, CHR 0xD3, CHR 0xD4, CHR 0xD5, CHR 0xD6, CHR 0xD8,
      CHR 0xD9, CHR 0xDA, CHR 0xDB, CHR 0xDC, CHR 0xDD, CHR 0xDE]"

definition lowerCaseLetters :: string where
  "lowerCaseLetters =
     ''abcdefghijklmnopqrstuvwxyz'' @
     [CHR 0xE0, CHR 0xE1, CHR 0xE2, CHR 0xE3, CHR 0xE4, CHR 0xE5, CHR 0xE6, CHR 0xE7,
      CHR 0xE8, CHR 0xE9, CHR 0xEA, CHR 0xEB, CHR 0xEC, CHR 0xED, CHR 0xEE, CHR 0xEF,
      CHR 0xF0, CHR 0xF1, CHR 0xF2, CHR 0xF3, CHR 0xF4, CHR 0xF5, CHR 0xF6, CHR 0xF8,
      CHR 0xF9, CHR 0xFA, CHR 0xFB, CHR 0xFC, CHR 0xFD, CHR 0xFE]"

definition toLowerChar :: "char \<Rightarrow> char" where
  "toLowerChar c =
     (case map_of (zip upperCaseLetters lowerCaseLetters) c of
        Some l \<Rightarrow> l
      | None \<Rightarrow> c)"

text \<open>\<^verbatim>\<open>s.toLowerCase()\<close>\<close>

definition toLowerCase :: "string \<Rightarrow> string" where
  "toLowerCase s = map toLowerChar s"

text \<open>\<^verbatim>\<open>s.includes(t)\<close>\<close>

definition includesStr :: "string \<Rightarrow> string \<Rightarrow> bool" where
  "includesStr s t = sublist t s"

text \<open>\<^verbatim>\<open>s.startsWith(t)\<close>\<close>

definition startsWith :: "string \<Rightarrow> string \<Rightarrow> bool" where
  "startsWith s t = prefix t s"

text \<open>\<^verbatim>\<open>xs.join(sep)\<close>\<close>

fun join :: "string \<Rightarrow> string list \<Rightarrow> string" where
  "join sep [] = []"
| "join sep [x] = x"
| "join sep (x # y # ys) = x @ sep @ join sep (y # ys)"

section \<open>Messages and validation records (types.ts, fact-validation.ts)\<close>

record AlfaFrensMessage =
  m_id :: string
  m_senderId :: string
  m_senderUsername :: string
  m_content :: string
  m_timestamp :: string

record Contradiction =
  c_fact :: string
  c_existingFact :: string
  c_confidence :: real
  c_timestamp :: int

record FactValidation =
  v_confidence :: real
  v_source :: string
  v_timestamp :: int
  v_contradictions :: "string list"

section \<open>Fact confidence (FactValidationManager.calculateFactConfidence)\<close>

text \<open>
  The first argument is \<^verbatim>\<open>this.runtime.agentId\<close>. The \<^verbatim>\<open>reduce\<close> over the
  contradictions is the left fold it is in the source.
\<close>

definition calculateFactConfidence ::
  "string \<Rightarrow> string \<Rightarrow> AlfaFrensMessage \<Rightarrow> Contradiction list \<Rightarrow> real" where
  "calculateFactConfidence agentId factText message contradictions =
     (let confidence = 0.5;
          confidence = (if m_senderId message = agentId then confidence + 0.2 else confidence);
          confidence =
            (if length contradictions > 0
             then (let avgContradictionConfidence =
                         foldl (\<lambda>acc c. acc + c_confidence c) 0 contradictions
                           / real (length contradictions)
                   in confidence - avgContradictionConfidence * 0.3)
             else confidence)
      in max 0 (min 1 confidence))"

section \<open>The runtime and the calls made to it\<close>

text \<open>
  Everything outside the plugin (the generation service, the memory store, the remote
  chat API, the cache, the clock) is reached through calls. The state of the outside
  world is the list of calls made so far, and the reply to a call is a function of that
  list and of the call's arguments, so that the same call may be answered differently
  at different times. Each wrapper below appends its call to the list.
\<close>

datatype ModelClass = SMALL | MEDIUM | LARGE

record Memory =
  mem_id :: string
  mem_text :: string
  mem_action :: "string option"
  mem_metadata :: "FactValidation option"
  mem_roomId :: string
  mem_userId :: string
  mem_agentId :: string

datatype call =
    GenerateText string ModelClass
  | CreateMemory Memory
  | ValidateFact string AlfaFrensMessage
  | GetMessages "jsnumber option"
  | EvaluateMessage AlfaFrensMessage
  | GenerateResponse AlfaFrensMessage "AlfaFrensMessage list"
  | SendMessage string "string option"
  | CacheGet string
  | CacheSet string jsnumber
  | Fetch string

datatype json =
    JNull
  | JBool bool
  | JNumber real
  | JString string
  | JArray "json list"
  | JObject "(string \<times> json) list"

text \<open>
  The replies of the outside world, and the library functions the plugin calls.
  \<open>rt_generateText_delay\<close> is the time in milliseconds the generation service takes to
  settle a call (read only when the call settles), and \<open>rt_timerWinsTie\<close> says whether
  the timer wins a race against a promise that settles in the same millisecond.
  \<open>rt_dateGetTime\<close> is \<^verbatim>\<open>new Date(s).getTime()\<close>, which is \<^verbatim>\<open>NaN\<close> for a string
  that is no date. \<open>rt_processTemplate\<close> is the substitution of the placeholders of a
  template (\<^verbatim>\<open>processTemplate\<close>), which throws when the character lacks a field.
\<close>

record runtime =
  rt_agentId :: string
  rt_characterName :: string
  rt_dateNow :: "call list \<Rightarrow> int"
  rt_dateGetTime :: "string \<Rightarrow> jsnumber"
  rt_toISOString :: "int \<Rightarrow> string"
  rt_stringToUuid :: "string \<Rightarrow> string"
  rt_JSON_parse :: "string \<Rightarrow> error + json"
  rt_processTemplate :: "string \<Rightarrow> error + string"
  rt_generateText_reply :: "call list \<Rightarrow> string \<Rightarrow> ModelClass \<Rightarrow> string outcome"
  rt_generateText_delay :: "call list \<Rightarrow> string \<Rightarrow> ModelClass \<Rightarrow> nat"
  rt_timerWinsTie :: bool
  rt_createMemory_reply :: "call list \<Rightarrow> Memory \<Rightarrow> unit outcome"
  rt_validateFact_reply ::
    "call list \<Rightarrow> string \<Rightarrow> AlfaFrensMessage \<Rightarrow> FactValidation outcome"
  rt_getMessages_reply :: "call list \<Rightarrow> jsnumber option \<Rightarrow> AlfaFrensMessage list outcome"
  rt_generateResponse_reply ::
    "call list \<Rightarrow> AlfaFrensMessage \<Rightarrow> AlfaFrensMessage list \<Rightarrow> string outcome"
  rt_sendMessage_reply ::
    "call list \<Rightarrow> string \<Rightarrow> string option \<Rightarrow> AlfaFrensMessage list outcome"
  rt_cacheGet_reply :: "call list \<Rightarrow> string \<Rightarrow> jsnumber option outcome"
  rt_cacheSet_reply :: "call list \<Rightarrow> string \<Rightarrow> jsnumber \<Rightarrow> unit outcome"
  rt_fetch_reply :: "call list \<Rightarrow> string \<Rightarrow> AlfaFrensMessage list outcome"

text \<open>\<^verbatim>\<open>await generateText({runtime, context, modelClass})\<close>\<close>

definition generateText ::
  "runtime \<Rightarrow> string \<Rightarrow> ModelClass \<Rightarrow> call list \<Rightarrow> string outcome \<times> call list" where
  "generateText rt context modelClass tr =
     (rt_generateText_reply rt tr context modelClass, tr @ [GenerateText context modelClass])"

text \<open>\<^verbatim>\<open>await this.runtime.messageManager.createMemory(memory)\<close>\<close>

definition createMemory ::
  "runtime \<Rightarrow> Memory \<Rightarrow> call list \<Rightarrow> unit outcome \<times> call list" where
  "createMemory rt memory tr = (rt_createMemory_reply rt tr memory, tr @ [CreateMemory memory])"

subsection \<open>Decimal numerals\<close>

fun showNat :: "nat \<Rightarrow> string" where
  "showNat n =
     (if n < 10 then [''0123456789'' ! n]
      else showNat (n div 10) @ [''0123456789'' ! (n mod 10)])"

declare showNat.simps [simp del]

text \<open>\<^verbatim>\<open>String(n)\<close> for an integer \<open>n\<close>.\<close>

definition showInt :: "int \<Rightarrow> string" where
  "showInt i = (if i < 0 then ''-'' @ showNat (nat (- i)) else showNat (nat i))"

section \<open>Storing a fact (FactValidationManager.storeFact)\<close>

definition confidenceThreshold :: real where
  "confidenceThreshold = 0.7"

text \<open>
  The early return, then the \<^verbatim>\<open>try\<close> block: an error of \<^verbatim>\<open>createMemory\<close> is caught
  and logged, so the call still returns.
\<close>

definition storeFact ::
  "runtime \<Rightarrow> string \<Rightarrow> FactValidation \<Rightarrow> call list \<Rightarrow> unit outcome \<times> call list" where
  "storeFact rt factText validation tr =
     (if v_confidence validation < confidenceThreshold then (Returns (), tr)
      else
        (let memory =
               \<lparr>mem_id = rt_stringToUuid rt (''fact-'' @ showInt (rt_dateNow rt tr)),
                mem_text = factText,
                mem_action = None,
                mem_metadata = Some validation,
                mem_roomId = rt_agentId rt,
                mem_userId = rt_agentId rt,
                mem_agentId = rt_agentId rt\<rparr>
         in case createMemory rt memory tr of
              (Returns u, tr') \<Rightarrow> (Returns (), tr')
            | (Throws e, tr') \<Rightarrow> (Returns (), tr')
            | (Hangs, tr') \<Rightarrow> (Hangs, tr')))"

section \<open>Heuristic fact extraction (FactValidationManager.extractFactsFallback)\<close>

text \<open>
  The regular expressions of the source are alternations of sequences of literal
  characters and \<^verbatim>\<open>\d\<close>, all with the flag \<^verbatim>\<open>i\<close>. A pattern is a list of atoms,
  \<open>regexTest\<close> is \<^verbatim>\<open>/p1|p2|.../i.test(s)\<close>.
\<close>

datatype atom = Lit char | Digit

fun atomMatches :: "atom \<Rightarrow> char \<Rightarrow> bool" where
  "atomMatches (Lit c) d = (toLowerChar d = toLowerChar c)"
| "atomMatches Digit d = isDigit d"

fun matchesAt :: "atom list \<Rightarrow> string \<Rightarrow> bool" where
  "matchesAt [] s = True"
| "matchesAt (a # as) [] = False"
| "matchesAt (a # as) (c # cs) = (atomMatches a c \<and> matchesAt as cs)"

fun searchPattern :: "atom list \<Rightarrow> string \<Rightarrow> bool" where
  "searchPattern p [] = matchesAt p []"
| "searchPattern p (c # cs) = (matchesAt p (c # cs) \<or> searchPattern p cs)"

definition regexTest :: "atom list list \<Rightarrow> string \<Rightarrow> bool" where
  "regexTest alternatives s = list_ex (\<lambda>p. searchPattern p s) alternatives"

definition lit :: "string \<Rightarrow> atom list" where
  "lit w = map Lit w"

text \<open>\<^verbatim>\<open>/think|feel|believe|opinion|seem|appear|likely|possibly|maybe|perhaps/i\<close>\<close>

definition opinionWords :: "string list" where
  "opinionWords =
     [''think'', ''feel'', ''believe'', ''opinion'', ''seem'', ''appear'', ''likely'',
      ''possibly'', ''maybe'', ''perhaps'']"

definition hasOpinionWords :: "string \<Rightarrow> bool" where
  "hasOpinionWords sentence = regexTest (map lit opinionWords) sentence"

text \<open>
  \<^verbatim>\<open>/in \d{4}|\d{4}|founded|created|established|launched|developed|built|designed|is a|was born|located|headquartered/i\<close>
\<close>

definition factSignalWords :: "string list" where
  "factSignalWords =
     [''founded'', ''created'', ''established'', ''launched'', ''developed'', ''built'',
      ''designed'', ''is a'', ''was born'', ''located'', ''headquartered'']"

definition hasFactSignals :: "string \<Rightarrow> bool" where
  "hasFactSignals sentence =
     regexTest
       ([lit ''in '' @ [Digit, Digit, Digit, Digit], [Digit, Digit, Digit, Digit]]
        @ map lit factSignalWords)
       sentence"

definition isQuestion :: "string \<Rightarrow> bool" where
  "isQuestion sentence =
     (includesStr sentence ''?''
      \<or> startsWith (toLowerCase sentence) ''what''
      \<or> startsWith (toLowerCase sentence) ''who''
      \<or> startsWith (toLowerCase sentence) ''when''
      \<or> startsWith (toLowerCase sentence) ''where''
      \<or> startsWith (toLowerCase sentence) ''why''
      \<or> startsWith (toLowerCase sentence) ''how'')"

definition isTerminator :: "char \<Rightarrow> bool" where
  "isTerminator c = (c \<in> set ''.!?'')"

text \<open>
  \<^verbatim>\<open>content.split(/[.!?]+/)\<close>: the pieces between maximal runs of terminators, the
  empty pieces at both ends included. \<open>acc\<close> is the current piece, reversed, and
  \<open>inRun\<close> says that the previous character was a terminator.
\<close>

fun splitTerminators :: "string \<Rightarrow> bool \<Rightarrow> string \<Rightarrow> string list" where
  "splitTerminators acc inRun [] = [rev acc]"
| "splitTerminators acc inRun (c # cs) =
     (if isTerminator c
      then (if inRun then splitTerminators [] True cs
            else rev acc # splitTerminators [] True cs)
      else splitTerminators (c # acc) False cs)"

text \<open>\<^verbatim>\<open>content.split(/[.!?]+/).map(s => s.trim()).filter(s => s.length > 0)\<close>\<close>

definition sentences :: "string \<Rightarrow> string list" where
  "sentences content =
     filter (\<lambda>s. length s > 0) (map trim (splitTerminators [] False content))"

definition extractFactsFallback :: "string \<Rightarrow> string list" where
  "extractFactsFallback content =
     filter (\<lambda>sentence. \<not> isQuestion sentence \<and> \<not> hasOpinionWords sentence
                          \<and> hasFactSignals sentence)
       (sentences content)"

subsection \<open>The heuristic in the words of the specification\<close>






section \<open>Fact extraction through the generation service (FactValidationManager.extractFacts)\<close>

definition NL :: string where
  "NL = [CHR 0x0A]"

definition DQ :: string where
  "DQ = [CHR 0x22]"

definition extractFactsPrompt :: "string \<Rightarrow> string" where
  "extractFactsPrompt content =
     ''Extract factual statements from this text. Return ONLY a JSON array of strings.'' @ NL
     @ ''        Only include clear, factual statements, not opinions or subjective content.'' @ NL
     @ ''        The JSON array must be properly formatted with square brackets and quoted strings.'' @ NL
     @ ''        '' @ NL
     @ ''        Text: '' @ DQ @ content @ DQ @ NL
     @ ''        '' @ NL
     @ ''        Example format:'' @ NL
     @ ''        ['' @ DQ @ ''Fact 1'' @ DQ @ '', '' @ DQ @ ''Fact 2'' @ DQ @ '', '' @ DQ
     @ ''Fact 3'' @ DQ @ '']'' @ NL
     @ ''        ''"

text \<open>
  \<^verbatim>\<open>result.match(/\[.*\]/s)\<close>: with the flag \<^verbatim>\<open>s\<close> the greedy match runs from the
  first opening bracket to the last closing bracket after it.
\<close>

definition matchJsonArray :: "string \<Rightarrow> string option" where
  "matchJsonArray result =
     (let fromBracket = dropWhile (\<lambda>c. c \<noteq> CHR ''['') result
      in if fromBracket = [] then None
         else (let upToBracket = dropWhile (\<lambda>c. c \<noteq> CHR '']'') (rev (tl fromBracket))
               in if upToBracket = [] then None
                  else Some (CHR ''['' # rev upToBracket)))"

fun isString :: "json \<Rightarrow> bool" where
  "isString (JString s) = True"
| "isString j = False"

fun stringOf :: "json \<Rightarrow> string" where
  "stringOf (JString s) = s"
| "stringOf j = []"

text \<open>\<^verbatim>\<open>facts.filter(fact => typeof fact === 'string' && fact.trim().length > 0)\<close>\<close>

definition validFacts :: "json list \<Rightarrow> string list" where
  "validFacts facts =
     map stringOf (filter (\<lambda>f. isString f \<and> length (trim (stringOf f)) > 0) facts)"

text \<open>
  The outer \<^verbatim>\<open>try\<close> catches a rejection of the generation call, the inner one a
  failure of \<^verbatim>\<open>JSON.parse\<close>; both return the heuristic extraction. The generation
  call is awaited with no timeout.
\<close>

definition extractFacts ::
  "runtime \<Rightarrow> string \<Rightarrow> call list \<Rightarrow> string list outcome \<times> call list" where
  "extractFacts rt content tr =
     (case generateText rt (extractFactsPrompt content) SMALL tr of
        (Hangs, tr') \<Rightarrow> (Hangs, tr')
      | (Throws e, tr') \<Rightarrow> (Returns (extractFactsFallback content), tr')
      | (Returns result, tr') \<Rightarrow>
          (case matchJsonArray result of
             None \<Rightarrow> (Returns (extractFactsFallback content), tr')
           | Some jsonStr \<Rightarrow>
               (case rt_JSON_parse rt jsonStr of
                  Inl parseError \<Rightarrow> (Returns (extractFactsFallback content), tr')
                | Inr (JArray facts) \<Rightarrow> (Returns (validFacts facts), tr')
                | Inr notAnArray \<Rightarrow> (Returns (extractFactsFallback content), tr'))))"

section \<open>Generation with a timeout (utils: generateLLMResponse, generatePostContent)\<close>

definition timeoutMs :: nat where
  "timeoutMs = 30000"

definition timeoutError :: error where
  "timeoutError = Error ''LLM request timed out''"

text \<open>
  \<^verbatim>\<open>Promise.race([llmPromise, timeoutPromise])\<close>: the generation call wins when it
  settles before the timer fires; otherwise the race rejects with the timer's error.
  The \<^verbatim>\<open>catch\<close> block logs and throws the error again.
\<close>

definition generateLLMResponse ::
  "runtime \<Rightarrow> string \<Rightarrow> ModelClass \<Rightarrow> string \<Rightarrow> call list \<Rightarrow> string outcome \<times> call list" where
  "generateLLMResponse rt context modelClass traceId tr =
     (let delay = rt_generateText_delay rt tr context modelClass
      in case generateText rt context modelClass tr of
           (Hangs, tr') \<Rightarrow> (Throws timeoutError, tr')
         | (settled, tr') \<Rightarrow>
             (if delay < timeoutMs \<or> (delay = timeoutMs \<and> \<not> rt_timerWinsTie rt)
              then (settled, tr')
              else (Throws timeoutError, tr')))"

definition postFallback :: string where
  "postFallback = ''I'm sorry, I couldn't generate a post at this time.''"

text \<open>
  \<^verbatim>\<open>generatePostContent(runtime, config)\<close> with \<^verbatim>\<open>config = {template, modelClass}\<close>.
  The template is processed before the \<^verbatim>\<open>try\<close> block.
\<close>

definition generatePostContent ::
  "runtime \<Rightarrow> string \<Rightarrow> ModelClass \<Rightarrow> call list \<Rightarrow> string outcome \<times> call list" where
  "generatePostContent rt template modelClass tr =
     (case rt_processTemplate rt template of
        Inl e \<Rightarrow> (Throws e, tr)
      | Inr context \<Rightarrow>
          (case generateLLMResponse rt context modelClass ''post'' tr of
             (Returns content, tr') \<Rightarrow> (Returns content, tr')
           | (Throws e, tr') \<Rightarrow> (Returns postFallback, tr')
           | (Hangs, tr') \<Rightarrow> (Hangs, tr')))"

section \<open>The API client (AlfaFrensApi.getMessages)\<close>

record GetMessagesOptions =
  o_since :: "jsnumber option"
  o_until :: "jsnumber option"
  o_includeReactions :: bool
  o_includeReplies :: bool

text \<open>An absent option is \<^verbatim>\<open>undefined\<close>, which is falsy.\<close>

fun truthyOption :: "jsnumber option \<Rightarrow> bool" where
  "truthyOption None = False"
| "truthyOption (Some n) = truthyNumber n"

fun showNumber :: "jsnumber \<Rightarrow> string" where
  "showNumber (Num n) = showInt n"
| "showNumber NaN = ''NaN''"

text \<open>The second argument is the value of \<^verbatim>\<open>Date.now()\<close>.\<close>

definition getMessagesUrl :: "GetMessagesOptions \<Rightarrow> int \<Rightarrow> string" where
  "getMessagesUrl options now =
     (let url = ''/api/ai/getChannelMessages?since=''
                  @ showNumber (if truthyOption (o_since options) then the (o_since options)
                                else Num (now - 3600000));
          url = (if truthyOption (o_until options)
                 then url @ ''&until='' @ showNumber (the (o_until options)) else url);
          url =
            (if o_includeReactions options \<or> o_includeReplies options
             then (let includeValues = [];
                       includeValues = (if o_includeReactions options
                                        then includeValues @ [''reactions''] else includeValues);
                       includeValues = (if o_includeReplies options
                                        then [''reactions'', ''replies''] else includeValues)
                   in if length includeValues > 0
                      then url @ ''&include='' @ join '','' includeValues else url)
             else url)
      in url)"

text \<open>\<^verbatim>\<open>await this.fetch(url)\<close>: a response that is not ok throws.\<close>

definition apiFetch ::
  "runtime \<Rightarrow> string \<Rightarrow> call list \<Rightarrow> AlfaFrensMessage list outcome \<times> call list" where
  "apiFetch rt url tr = (rt_fetch_reply rt tr url, tr @ [Fetch url])"

definition apiGetMessages ::
  "runtime \<Rightarrow> GetMessagesOptions \<Rightarrow> call list \<Rightarrow> AlfaFrensMessage list outcome \<times> call list" where
  "apiGetMessages rt options tr = apiFetch rt (getMessagesUrl options (rt_dateNow rt tr)) tr"

section \<open>The poll loop (AlfaFrensAIInteraction: processMessages, processMessageBatch)\<close>

record AlfaFrensConfig =
  cfg_apiKey :: string
  cfg_userId :: string
  cfg_channelId :: string
  cfg_username :: string
  cfg_pollInterval :: nat
  cfg_enablePost :: bool
  cfg_postIntervalMin :: nat
  cfg_postIntervalMax :: nat

text \<open>The fields of the interaction manager that the poll loop reads and writes.\<close>

record AlfaFrensAIInteraction =
  ai_isRunning :: bool
  ai_messageHistory :: "AlfaFrensMessage list"
  ai_lastProcessedTime :: jsnumber
  ai_sentMessageIds :: "string set"

text \<open>\<^verbatim>\<open>await this.client.getMessages({roomId, since, includeReactions, includeReplies})\<close>\<close>

definition getMessages ::
  "runtime \<Rightarrow> jsnumber option \<Rightarrow> call list \<Rightarrow> AlfaFrensMessage list outcome \<times> call list" where
  "getMessages rt since tr = (rt_getMessages_reply rt tr since, tr @ [GetMessages since])"

text \<open>
  \<^verbatim>\<open>await this.client.sendMessage({content, roomId, inReplyTo})\<close>; the reply lists the
  messages of the returned entries.
\<close>

definition sendMessage ::
  "runtime \<Rightarrow> string \<Rightarrow> string option \<Rightarrow> call list
     \<Rightarrow> AlfaFrensMessage list outcome \<times> call list" where
  "sendMessage rt text inReplyTo tr =
     (rt_sendMessage_reply rt tr text inReplyTo, tr @ [SendMessage text inReplyTo])"

text \<open>
  \<^verbatim>\<open>evaluateMessage\<close> of utils skips the evaluation by the generation service and
  returns \<^verbatim>\<open>true\<close>. The call is recorded.
\<close>

definition evaluateMessage ::
  "runtime \<Rightarrow> AlfaFrensMessage \<Rightarrow> call list \<Rightarrow> bool \<times> call list" where
  "evaluateMessage rt message tr = (True, tr @ [EvaluateMessage message])"

text \<open>
  \<^verbatim>\<open>generateResponse\<close> of utils, called with the message and the last ten messages of
  the history.
\<close>

definition generateResponseUtil ::
  "runtime \<Rightarrow> AlfaFrensMessage \<Rightarrow> AlfaFrensMessage list \<Rightarrow> call list
     \<Rightarrow> string outcome \<times> call list" where
  "generateResponseUtil rt message history tr =
     (rt_generateResponse_reply rt tr message history, tr @ [GenerateResponse message history])"

text \<open>\<^verbatim>\<open>s.replace('@', '')\<close>: the first occurrence of the character is removed.\<close>

fun replaceAt :: "string \<Rightarrow> string" where
  "replaceAt [] = []"
| "replaceAt (c # cs) = (if c = CHR ''@'' then cs else c # replaceAt cs)"

text \<open>\<^verbatim>\<open>xs.slice(-n)\<close>\<close>

definition sliceLast :: "nat \<Rightarrow> 'a list \<Rightarrow> 'a list" where
  "sliceLast n xs = drop (length xs - n) xs"

text \<open>\<^verbatim>\<open>createAlfaFrensMemory\<close> of memory.ts, for a message that is not the bot's.\<close>

definition createAlfaFrensMemory ::
  "runtime \<Rightarrow> AlfaFrensConfig \<Rightarrow> AlfaFrensMessage \<Rightarrow> Memory" where
  "createAlfaFrensMemory rt config message =
     \<lparr>mem_id = m_id message,
      mem_text = m_content message,
      mem_action = None,
      mem_metadata = None,
      mem_roomId = rt_stringToUuid rt (cfg_channelId config),
      mem_userId = rt_stringToUuid rt
                     (if m_senderId message = [] then ''user'' else m_senderId message),
      mem_agentId = rt_agentId rt\<rparr>"

text \<open>
  The body of the loop of \<^verbatim>\<open>processMessageBatch\<close> for one message. The three tests
  at the top \<^verbatim>\<open>continue\<close>. After them every awaited call stands in a \<^verbatim>\<open>try\<close> block
  whose handler logs the error, so the body throws nothing.
\<close>

definition processMessage ::
  "runtime \<Rightarrow> AlfaFrensConfig \<Rightarrow> AlfaFrensMessage \<Rightarrow> AlfaFrensAIInteraction \<Rightarrow> call list
     \<Rightarrow> unit outcome \<times> AlfaFrensAIInteraction \<times> call list" where
  "processMessage rt config message this tr =
     (if m_id message \<in> ai_sentMessageIds this then (Returns (), this, tr)
      else if m_senderId message = cfg_userId config then (Returns (), this, tr)
      else
        (let normalizedMessageUsername = replaceAt (m_senderUsername message);
             normalizedConfigUsername = replaceAt (cfg_username config)
         in if normalizedMessageUsername \<noteq> [] \<and> normalizedConfigUsername \<noteq> []
               \<and> normalizedMessageUsername = normalizedConfigUsername
            then (Returns (), this, tr)
            else
              (case createMemory rt (createAlfaFrensMemory rt config message) tr of
                 (Hangs, tr1) \<Rightarrow> (Hangs, this, tr1)
               | (stored, tr1) \<Rightarrow>
                   (case evaluateMessage rt message tr1 of
                      (shouldRespond, tr2) \<Rightarrow>
                        if \<not> shouldRespond then (Returns (), this, tr2)
                        else
                          (case generateResponseUtil rt message
                                  (sliceLast 10 (ai_messageHistory this)) tr2 of
                             (Hangs, tr3) \<Rightarrow> (Hangs, this, tr3)
                           | (Throws e, tr3) \<Rightarrow> (Returns (), this, tr3)
                           | (Returns response, tr3) \<Rightarrow>
                               (case sendMessage rt response (Some (m_id message)) tr3 of
                                  (Hangs, tr4) \<Rightarrow> (Hangs, this, tr4)
                                | (Throws e, tr4) \<Rightarrow> (Returns (), this, tr4)
                                | (Returns result, tr4) \<Rightarrow>
                                    (if length result > 0 \<and> m_id (hd result) \<noteq> []
                                     then (Returns (),
                                           this\<lparr>ai_sentMessageIds :=
                                                  insert (m_id (hd result))
                                                    (ai_sentMessageIds this)\<rparr>,
                                           tr4)
                                     else (Returns (), this, tr4))))))))"

fun processMessageBatch ::
  "runtime \<Rightarrow> AlfaFrensConfig \<Rightarrow> AlfaFrensMessage list \<Rightarrow> AlfaFrensAIInteraction \<Rightarrow> call list
     \<Rightarrow> unit outcome \<times> AlfaFrensAIInteraction \<times> call list" where
  "processMessageBatch rt config [] this tr = (Returns (), this, tr)"
| "processMessageBatch rt config (message # messages) this tr =
     (case processMessage rt config message this tr of
        (Returns u, this', tr') \<Rightarrow> processMessageBatch rt config messages this' tr'
      | (stopped, this', tr') \<Rightarrow> (stopped, this', tr'))"

text \<open>
  \<^verbatim>\<open>for (let i = 0; i < messages.length; i += batchSize) messageBatches.push(messages.slice(i, i + batchSize))\<close>
\<close>

function messageBatches :: "nat \<Rightarrow> 'a list \<Rightarrow> 'a list list" where
  "messageBatches batchSize messages =
     (if batchSize = 0 \<or> messages = [] then []
      else take batchSize messages # messageBatches batchSize (drop batchSize messages))"
  by pat_completeness auto
termination
  by (relation "measure (\<lambda>(batchSize, messages). length messages)") auto

declare messageBatches.simps [simp del]

text \<open>The loop over the batches: an error of a batch is caught and logged.\<close>

fun processBatches ::
  "runtime \<Rightarrow> AlfaFrensConfig \<Rightarrow> AlfaFrensMessage list list \<Rightarrow> AlfaFrensAIInteraction
     \<Rightarrow> call list \<Rightarrow> unit outcome \<times> AlfaFrensAIInteraction \<times> call list" where
  "processBatches rt config [] this tr = (Returns (), this, tr)"
| "processBatches rt config (batch # batches) this tr =
     (case processMessageBatch rt config batch this tr of
        (Hangs, this', tr') \<Rightarrow> (Hangs, this', tr')
      | (done, this', tr') \<Rightarrow> processBatches rt config batches this' tr')"

text \<open>
  One poll cycle. An error of the fetch is caught by the outer \<^verbatim>\<open>try\<close> and logged.
  The checkpoint is set from the last message of the batch before the batches are
  processed.
\<close>

definition processMessages ::
  "runtime \<Rightarrow> AlfaFrensConfig \<Rightarrow> AlfaFrensAIInteraction \<Rightarrow> call list
     \<Rightarrow> unit outcome \<times> AlfaFrensAIInteraction \<times> call list" where
  "processMessages rt config this tr =
     (if \<not> ai_isRunning this then (Returns (), this, tr)
      else
        (case getMessages rt (Some (ai_lastProcessedTime this)) tr of
           (Hangs, tr1) \<Rightarrow> (Hangs, this, tr1)
         | (Throws e, tr1) \<Rightarrow> (Returns (), this, tr1)
         | (Returns messages, tr1) \<Rightarrow>
             (if length messages = 0 then (Returns (), this, tr1)
              else
                (let this1 = this\<lparr>ai_messageHistory :=
                                     sliceLast 50 (ai_messageHistory this @ messages)\<rparr>;
                     lastTimestamp = m_timestamp (last messages);
                     this2 = this1\<lparr>ai_lastProcessedTime :=
                                      plusNumber (rt_dateGetTime rt lastTimestamp) 1\<rparr>
                 in processBatches rt config (messageBatches 10 messages) this2 tr1))))"

subsection \<open>Messages of the bot itself\<close>

text \<open>
  The three tests at the top of the loop body, as one predicate of the configuration,
  the set of sent message ids and the message.
\<close>

definition isOwnMessage :: "AlfaFrensConfig \<Rightarrow> string set \<Rightarrow> AlfaFrensMessage \<Rightarrow> bool" where
  "isOwnMessage config sentMessageIds message =
     (m_id message \<in> sentMessageIds
      \<or> m_senderId message = cfg_userId config
      \<or> (replaceAt (m_senderUsername message) \<noteq> []
          \<and> replaceAt (cfg_username config) \<noteq> []
          \<and> replaceAt (m_senderUsername message) = replaceAt (cfg_username config)))"

text \<open>
  The same in the words of the specification: the sender id is the configured id, or
  the usernames are equal after a leading \<^verbatim>\<open>@\<close> is stripped from each, or the id is
  among the sent ones.
\<close>

definition stripLeadingAt :: "string \<Rightarrow> string" where
  "stripLeadingAt u = (case u of [] \<Rightarrow> [] | c # cs \<Rightarrow> if c = CHR ''@'' then cs else u)"

definition spec_isOwnMessage :: "AlfaFrensConfig \<Rightarrow> string set \<Rightarrow> AlfaFrensMessage \<Rightarrow> bool" where
  "spec_isOwnMessage config sentMessageIds message =
     (m_senderId message = cfg_userId config
      \<or> stripLeadingAt (m_senderUsername message) = stripLeadingAt (cfg_username config)
      \<or> m_id message \<in> sentMessageIds)"

subsection \<open>The time of a message\<close>

text \<open>The time a message was created, for a timestamp that is a date.\<close>

definition createdAt :: "runtime \<Rightarrow> AlfaFrensMessage \<Rightarrow> int" where
  "createdAt rt message =
     (case rt_dateGetTime rt (m_timestamp message) of Num t \<Rightarrow> t | NaN \<Rightarrow> 0)"

section \<open>The client manager (AlfaFrensManager: constructor, initialize, stop)\<close>

record AlfaFrensManager =
  mgr_isRunning :: bool
  mgr_lastProcessedTime :: jsnumber
  mgr_aiInteraction :: AlfaFrensAIInteraction

text \<open>
  The field initialisers of \<^verbatim>\<open>AlfaFrensAIInteraction\<close>: the checkpoint of the poll
  loop starts at \<^verbatim>\<open>Date.now()\<close>.
\<close>

definition newAlfaFrensAIInteraction :: "runtime \<Rightarrow> call list \<Rightarrow> AlfaFrensAIInteraction" where
  "newAlfaFrensAIInteraction rt tr =
     \<lparr>ai_isRunning = False,
      ai_messageHistory = [],
      ai_lastProcessedTime = Num (rt_dateNow rt tr),
      ai_sentMessageIds = {}\<rparr>"

text \<open>The constructor of the manager; it throws when the API key is missing.\<close>

definition newAlfaFrensManager ::
  "runtime \<Rightarrow> AlfaFrensConfig \<Rightarrow> call list \<Rightarrow> error + AlfaFrensManager" where
  "newAlfaFrensManager rt config tr =
     (if cfg_apiKey config = [] then Inl (Error ''AlfaFrens API key is required'')
      else Inr \<lparr>mgr_isRunning = False,
                mgr_lastProcessedTime = Num 0,
                mgr_aiInteraction = newAlfaFrensAIInteraction rt tr\<rparr>)"

definition cacheKey :: string where
  "cacheKey = ''alfafrens_last_processed_time''"

definition cacheGet ::
  "runtime \<Rightarrow> string \<Rightarrow> call list \<Rightarrow> jsnumber option outcome \<times> call list" where
  "cacheGet rt key tr = (rt_cacheGet_reply rt tr key, tr @ [CacheGet key])"

definition cacheSet ::
  "runtime \<Rightarrow> string \<Rightarrow> jsnumber \<Rightarrow> call list \<Rightarrow> unit outcome \<times> call list" where
  "cacheSet rt key v tr = (rt_cacheSet_reply rt tr key v, tr @ [CacheSet key v])"

text \<open>
  \<^verbatim>\<open>AlfaFrensAIInteraction.start\<close>: the first poll cycle runs at once and its errors
  are caught; the timers that run the later cycles and the posts are not part of the
  model. \<^verbatim>\<open>AlfaFrensAIInteraction.stop\<close> clears the timers.
\<close>

definition aiStart ::
  "runtime \<Rightarrow> AlfaFrensConfig \<Rightarrow> AlfaFrensAIInteraction \<Rightarrow> call list
     \<Rightarrow> unit outcome \<times> AlfaFrensAIInteraction \<times> call list" where
  "aiStart rt config this tr =
     (if ai_isRunning this then (Returns (), this, tr)
      else (case processMessages rt config (this\<lparr>ai_isRunning := True\<rparr>) tr of
              (Hangs, this', tr') \<Rightarrow> (Hangs, this', tr')
            | (done, this', tr') \<Rightarrow> (Returns (), this', tr')))"

definition aiStop :: "AlfaFrensAIInteraction \<Rightarrow> AlfaFrensAIInteraction" where
  "aiStop this = (if \<not> ai_isRunning this then this else this\<lparr>ai_isRunning := False\<rparr>)"

definition initialMessage :: string where
  "initialMessage =
     ''Hey AlfaFrens! I'm back online and ready to help with your questions. Feel free to ask anything!''"

text \<open>
  \<^verbatim>\<open>AlfaFrensManager.initialize\<close>. The registration of the actions between the read
  of the cache and the start of the poll loop makes no call and is left out.
\<close>

definition initialize ::
  "runtime \<Rightarrow> AlfaFrensConfig \<Rightarrow> AlfaFrensManager \<Rightarrow> call list
     \<Rightarrow> unit outcome \<times> AlfaFrensManager \<times> call list" where
  "initialize rt config this tr =
     (if mgr_isRunning this then (Returns (), this, tr)
      else
        (let this1 = this\<lparr>mgr_isRunning := True\<rparr>
         in case cacheGet rt cacheKey tr of
              (Hangs, tr1) \<Rightarrow> (Hangs, this1, tr1)
            | (Throws e, tr1) \<Rightarrow> (Throws e, this1\<lparr>mgr_isRunning := False\<rparr>, tr1)
            | (Returns cached, tr1) \<Rightarrow>
                (let this2 = this1\<lparr>mgr_lastProcessedTime :=
                                      (if truthyOption cached then the cached
                                       else Num (rt_dateNow rt tr1 - 5 * 60 * 1000))\<rparr>
                 in case aiStart rt config (mgr_aiInteraction this2) tr1 of
                      (Hangs, ai, tr2) \<Rightarrow> (Hangs, this2\<lparr>mgr_aiInteraction := ai\<rparr>, tr2)
                    | (Throws e, ai, tr2) \<Rightarrow>
                        (Throws e, this2\<lparr>mgr_aiInteraction := ai, mgr_isRunning := False\<rparr>, tr2)
                    | (Returns u, ai, tr2) \<Rightarrow>
                        (let this3 = this2\<lparr>mgr_aiInteraction := ai\<rparr>
                         in case sendMessage rt initialMessage None tr2 of
                              (Hangs, tr3) \<Rightarrow> (Hangs, this3, tr3)
                            | (Throws e, tr3) \<Rightarrow>
                                (Throws e, this3\<lparr>mgr_isRunning := False\<rparr>, tr3)
                            | (Returns sent, tr3) \<Rightarrow> (Returns (), this3, tr3)))))"

text \<open>\<^verbatim>\<open>AlfaFrensManager.stop\<close>\<close>

definition stop ::
  "runtime \<Rightarrow> AlfaFrensManager \<Rightarrow> call list \<Rightarrow> unit outcome \<times> AlfaFrensManager \<times> call list" where
  "stop rt this tr =
     (if \<not> mgr_isRunning this then (Returns (), this, tr)
      else
        (let this1 = this\<lparr>mgr_isRunning := False\<rparr>
         in case cacheSet rt cacheKey (mgr_lastProcessedTime this1) tr of
              (Hangs, tr1) \<Rightarrow> (Hangs, this1, tr1)
            | (Throws e, tr1) \<Rightarrow> (Throws e, this1, tr1)
            | (Returns u, tr1) \<Rightarrow>
                (Returns (), this1\<lparr>mgr_aiInteraction := aiStop (mgr_aiInteraction this1)\<rparr>, tr1)))"

section \<open>Generation, then validation (utils: generateResponse)\<close>

text \<open>\<^verbatim>\<open>await factValidationManager.validateFact(fact, dummyMessage)\<close>\<close>

definition validateFact ::
  "runtime \<Rightarrow> string \<Rightarrow> AlfaFrensMessage \<Rightarrow> call list \<Rightarrow> FactValidation outcome \<times> call list" where
  "validateFact rt factText message tr =
     (rt_validateFact_reply rt tr factText message, tr @ [ValidateFact factText message])"

record FactValidationResult =
  r_fact :: string
  r_confidence :: real
  r_contradictions :: "string list"

text \<open>
  \<^verbatim>\<open>x.toFixed(2)\<close>: the nearest multiple of one hundredth, the larger one of two that
  are equally near, in decimal notation.
\<close>

definition toFixed2 :: "real \<Rightarrow> string" where
  "toFixed2 x =
     (let n = nat \<lfloor>\<bar>x\<bar> * 100 + 1 / 2\<rfloor>
      in (if x < 0 then ''-'' else [])
         @ showNat (n div 100) @ ''.''
         @ [''0123456789'' ! ((n div 10) mod 10), ''0123456789'' ! (n mod 10)])"

text \<open>
  The loop over the extracted facts. It carries the results and the flag
  \<^verbatim>\<open>requiresCorrection\<close>; it stands in the \<^verbatim>\<open>try\<close> block, so it stops at the first
  validation that throws.
\<close>

fun validateFacts ::
  "runtime \<Rightarrow> string list \<Rightarrow> AlfaFrensMessage \<Rightarrow> FactValidationResult list \<Rightarrow> bool
     \<Rightarrow> call list \<Rightarrow> (FactValidationResult list \<times> bool) outcome \<times> call list" where
  "validateFacts rt [] dummyMessage factValidationResults requiresCorrection tr =
     (Returns (factValidationResults, requiresCorrection), tr)"
| "validateFacts rt (factText # facts) dummyMessage factValidationResults requiresCorrection tr =
     (case validateFact rt factText dummyMessage tr of
        (Hangs, tr') \<Rightarrow> (Hangs, tr')
      | (Throws e, tr') \<Rightarrow> (Throws e, tr')
      | (Returns validation, tr') \<Rightarrow>
          validateFacts rt facts dummyMessage
            (factValidationResults
             @ [\<lparr>r_fact = factText, r_confidence = v_confidence validation,
                 r_contradictions = v_contradictions validation\<rparr>])
            (if length (v_contradictions validation) > 0 \<or> v_confidence validation < 0.7
             then True else requiresCorrection)
            tr')"

definition needsCorrection :: "FactValidationResult \<Rightarrow> bool" where
  "needsCorrection r = (length (r_contradictions r) > 0 \<or> r_confidence r < 0.7)"

definition correctionLine :: "FactValidationResult \<Rightarrow> string" where
  "correctionLine r =
     (if length (r_contradictions r) > 0
      then ''CORRECTION: '' @ DQ @ r_fact r @ DQ @ '' contradicts known facts: ''
           @ join '', '' (r_contradictions r)
      else ''CORRECTION: '' @ DQ @ r_fact r @ DQ @ '' has low confidence (''
           @ toFixed2 (r_confidence r) @ '')'')"

definition correctionContext :: "FactValidationResult list \<Rightarrow> string" where
  "correctionContext factValidationResults =
     join NL (map correctionLine (filter needsCorrection factValidationResults))"

definition revisedPrompt :: "string \<Rightarrow> FactValidationResult list \<Rightarrow> string" where
  "revisedPrompt prompt factValidationResults =
     prompt @ NL @ NL
     @ ''Your initial response contains factual issues that need correction:'' @ NL
     @ correctionContext factValidationResults @ NL @ NL
     @ ''Revised response:''"

text \<open>The loop that stores the validated facts; \<open>storeFact\<close> throws nothing.\<close>

fun storeValidatedFacts ::
  "runtime \<Rightarrow> FactValidationResult list \<Rightarrow> call list \<Rightarrow> unit outcome \<times> call list" where
  "storeValidatedFacts rt [] tr = (Returns (), tr)"
| "storeValidatedFacts rt (result # results) tr =
     (if r_confidence result \<ge> 0.7 \<and> length (r_contradictions result) = 0
      then (case storeFact rt (r_fact result)
                   \<lparr>v_confidence = r_confidence result, v_source = rt_agentId rt,
                    v_timestamp = rt_dateNow rt tr, v_contradictions = []\<rparr> tr of
              (Returns u, tr') \<Rightarrow> storeValidatedFacts rt results tr'
            | (stopped, tr') \<Rightarrow> (stopped, tr'))
      else storeValidatedFacts rt results tr)"

text \<open>The message that stands for the response while its facts are validated.\<close>

definition dummyMessage :: "runtime \<Rightarrow> string \<Rightarrow> call list \<Rightarrow> AlfaFrensMessage" where
  "dummyMessage rt rawResponse tr =
     \<lparr>m_id = ''validation-'' @ showInt (rt_dateNow rt tr),
      m_senderId = rt_agentId rt,
      m_senderUsername =
        (if rt_characterName rt = [] then ''AI Assistant'' else rt_characterName rt),
      m_content = rawResponse,
      m_timestamp = rt_toISOString rt (rt_dateNow rt tr)\<rparr>"

text \<open>
  \<^verbatim>\<open>generateResponse\<close> from the point where \<^verbatim>\<open>prompt\<close> has been built (the web
  search, the knowledge lookup and the processing of the template come before and
  catch their own errors). The first generation stands outside the \<^verbatim>\<open>try\<close> block;
  the handler of the block returns the raw response.
\<close>

definition generateResponse ::
  "runtime \<Rightarrow> string \<Rightarrow> ModelClass option \<Rightarrow> call list \<Rightarrow> string outcome \<times> call list" where
  "generateResponse rt prompt modelClass tr =
     (let model = (case modelClass of Some c \<Rightarrow> c | None \<Rightarrow> MEDIUM)
      in case generateLLMResponse rt prompt model ''response'' tr of
           (Hangs, tr1) \<Rightarrow> (Hangs, tr1)
         | (Throws e, tr1) \<Rightarrow> (Throws e, tr1)
         | (Returns rawResponse, tr1) \<Rightarrow>
             (case extractFacts rt rawResponse tr1 of
                (Hangs, tr2) \<Rightarrow> (Hangs, tr2)
              | (Throws e, tr2) \<Rightarrow> (Returns rawResponse, tr2)
              | (Returns extractedFacts, tr2) \<Rightarrow>
                  (if length extractedFacts = 0 then (Returns rawResponse, tr2)
                   else
                     (case validateFacts rt extractedFacts (dummyMessage rt rawResponse tr2)
                             [] False tr2 of
                        (Hangs, tr3) \<Rightarrow> (Hangs, tr3)
                      | (Throws e, tr3) \<Rightarrow> (Returns rawResponse, tr3)
                      | (Returns (factValidationResults, requiresCorrection), tr3) \<Rightarrow>
                          (if requiresCorrection
                           then (case generateLLMResponse rt
                                        (revisedPrompt prompt factValidationResults)
                                        model ''corrected-response'' tr3 of
                                   (Hangs, tr4) \<Rightarrow> (Hangs, tr4)
                                 | (Throws e, tr4) \<Rightarrow> (Returns rawResponse, tr4)
                                 | (Returns correctedResponse, tr4) \<Rightarrow>
                                     (Returns correctedResponse, tr4))
                           else (case storeValidatedFacts rt factValidationResults tr3 of
                                   (Hangs, tr4) \<Rightarrow> (Hangs, tr4)
                                 | (done, tr4) \<Rightarrow> (Returns rawResponse, tr4)))))))"

section \<open>A runtime for examples\<close>

text \<open>
  A runtime in which every call succeeds at once and returns nothing of interest. The
  examples below change single fields of it.
\<close>

definition exampleRuntime :: runtime where
  "exampleRuntime =
     \<lparr>rt_agentId = ''agent-1'',
      rt_characterName = ''Fren'',
      rt_dateNow = (\<lambda>tr. 1704067200000 + 1000 * int (length tr)),
      rt_dateGetTime =
        (\<lambda>s. case map_of [(''2024-01-01T00:00:03.000Z'', 1704067203000),
                            (''2024-01-01T00:00:05.000Z'', 1704067205000)] s of
                Some t \<Rightarrow> Num t
              | None \<Rightarrow> NaN),
      rt_toISOString = (\<lambda>t. ''2024-01-01T00:00:00.000Z''),
      rt_stringToUuid = (\<lambda>s. s),
      rt_JSON_parse = (\<lambda>s. Inl (Error ''Unexpected token'')),
      rt_processTemplate = (\<lambda>template. Inr template),
      rt_generateText_reply = (\<lambda>tr context modelClass. Returns ''Hello.''),
      rt_generateText_delay = (\<lambda>tr context modelClass. 1200),
      rt_timerWinsTie = True,
      rt_createMemory_reply = (\<lambda>tr memory. Returns ()),
      rt_validateFact_reply =
        (\<lambda>tr factText message.
           Returns \<lparr>v_confidence = 0.7, v_source = m_senderId message, v_timestamp = 0,
                    v_contradictions = []\<rparr>),
      rt_getMessages_reply = (\<lambda>tr since. Returns []),
      rt_generateResponse_reply = (\<lambda>tr message history. Returns ''Hello.''),
      rt_sendMessage_reply = (\<lambda>tr text inReplyTo. Returns []),
      rt_cacheGet_reply = (\<lambda>tr key. Returns None),
      rt_cacheSet_reply = (\<lambda>tr key v. Returns ()),
      rt_fetch_reply = (\<lambda>tr url. Returns [])\<rparr>"

definition exampleConfig :: AlfaFrensConfig where
  "exampleConfig =
     \<lparr>cfg_apiKey = ''key'',
      cfg_userId = ''bot-1'',
      cfg_channelId = ''channel-1'',
      cfg_username = ''@frenbot'',
      cfg_pollInterval = 15,
      cfg_enablePost = False,
      cfg_postIntervalMin = 3600,
      cfg_postIntervalMax = 7200\<rparr>"

text \<open>Generation services for the examples of the fact extraction.\<close>

definition exampleText :: string where
  "exampleText = ''Acme was founded in 1999. I think it is big.''"

definition failingGenerator :: runtime where
  "failingGenerator =
     exampleRuntime
       \<lparr>rt_generateText_reply := (\<lambda>tr context modelClass. Throws (Error ''service unavailable''))\<rparr>"

definition proseGenerator :: runtime where
  "proseGenerator =
     exampleRuntime
       \<lparr>rt_generateText_reply := (\<lambda>tr context modelClass. Returns ''There is one fact.'')\<rparr>"

definition brokenJsonGenerator :: runtime where
  "brokenJsonGenerator =
     exampleRuntime
       \<lparr>rt_generateText_reply := (\<lambda>tr context modelClass. Returns ''[Acme, founded 1999]'')\<rparr>"

definition objectParser :: runtime where
  "objectParser = brokenJsonGenerator \<lparr>rt_JSON_parse := (\<lambda>s. Inr (JObject []))\<rparr>"

text \<open>
  A generation service that answers
  \<^verbatim>\<open>Here you go: ["  ", "Paris is in France"]\<close>, and the value of \<^verbatim>\<open>JSON.parse\<close> at
  the bracketed part of that answer.
\<close>

definition blankReply :: string where
  "blankReply =
     ''Here you go: ['' @ DQ @ ''  '' @ DQ @ '', '' @ DQ @ ''Paris is in France'' @ DQ @ '']''"

definition blankRuntime :: runtime where
  "blankRuntime =
     exampleRuntime
       \<lparr>rt_generateText_reply := (\<lambda>tr context modelClass. Returns blankReply),
        rt_JSON_parse :=
          (\<lambda>s. if s = ''['' @ DQ @ ''  '' @ DQ @ '', '' @ DQ @ ''Paris is in France'' @ DQ @ '']''
               then Inr (JArray [JString ''  '', JString ''Paris is in France''])
               else Inl (Error ''Unexpected token''))\<rparr>"

text \<open>Generation services that do not settle in time.\<close>

definition hangingGenerator :: runtime where
  "hangingGenerator =
     exampleRuntime \<lparr>rt_generateText_reply := (\<lambda>tr context modelClass. Hangs)\<rparr>"

definition slowGenerator :: runtime where
  "slowGenerator =
     exampleRuntime \<lparr>rt_generateText_delay := (\<lambda>tr context modelClass. 45000)\<rparr>"

text \<open>Messages, configurations and states for the examples of the poll loop.\<close>

definition messageAt3 :: AlfaFrensMessage where
  "messageAt3 =
     \<lparr>m_id = ''m-3'', m_senderId = ''user-7'', m_senderUsername = ''ann'',
      m_content = ''gm'', m_timestamp = ''2024-01-01T00:00:03.000Z''\<rparr>"

definition messageAt5 :: AlfaFrensMessage where
  "messageAt5 =
     \<lparr>m_id = ''m-5'', m_senderId = ''user-8'', m_senderUsername = ''bob'',
      m_content = ''hello'', m_timestamp = ''2024-01-01T00:00:05.000Z''\<rparr>"

definition runningInteraction :: AlfaFrensAIInteraction where
  "runningInteraction =
     \<lparr>ai_isRunning = True, ai_messageHistory = [],
      ai_lastProcessedTime = Num 1704067200000, ai_sentMessageIds = {''m-1''}\<rparr>"

definition sortedFetch :: runtime where
  "sortedFetch =
     exampleRuntime \<lparr>rt_getMessages_reply := (\<lambda>tr since. Returns [messageAt3, messageAt5])\<rparr>"

definition unsortedFetch :: runtime where
  "unsortedFetch =
     exampleRuntime \<lparr>rt_getMessages_reply := (\<lambda>tr since. Returns [messageAt5, messageAt3])\<rparr>"

text \<open>A third message, at the same time as the second, and a fetch that returns all three.\<close>

definition messageAt5b :: AlfaFrensMessage where
  "messageAt5b =
     \<lparr>m_id = ''m-6'', m_senderId = ''user-9'', m_senderUsername = ''cyd'',
      m_content = ''gm gm'', m_timestamp = ''2024-01-01T00:00:05.000Z''\<rparr>"

definition sharedFetch :: runtime where
  "sharedFetch =
     exampleRuntime
       \<lparr>rt_getMessages_reply := (\<lambda>tr since. Returns [messageAt3, messageAt5, messageAt5b])\<rparr>"

text \<open>
  A message under a handle that holds a second \<^verbatim>\<open>@\<close>, for a bot configured with the
  same handle without the leading one; and a message with no username, for a bot
  configured without a username.
\<close>

definition federatedConfig :: AlfaFrensConfig where
  "federatedConfig = exampleConfig \<lparr>cfg_username := ''fren@example.com''\<rparr>"

definition federatedMessage :: AlfaFrensMessage where
  "federatedMessage =
     \<lparr>m_id = ''m-7'', m_senderId = ''user-9'', m_senderUsername = ''@fren@example.com'',
      m_content = ''gm'', m_timestamp = ''2024-01-01T00:00:03.000Z''\<rparr>"

definition namelessConfig :: AlfaFrensConfig where
  "namelessConfig = exampleConfig \<lparr>cfg_username := []\<rparr>"

definition namelessMessage :: AlfaFrensMessage where
  "namelessMessage =
     \<lparr>m_id = ''m-8'', m_senderId = ''user-9'', m_senderUsername = [],
      m_content = ''gm'', m_timestamp = ''2024-01-01T00:00:03.000Z''\<rparr>"

definition ownMessage :: AlfaFrensMessage where
  "ownMessage =
     \<lparr>m_id = ''m-9'', m_senderId = ''user-9'', m_senderUsername = ''frenbot'',
      m_content = ''gm'', m_timestamp = ''2024-01-01T00:00:03.000Z''\<rparr>"

text \<open>
  A restart: the cache holds a checkpoint of two hours before the manager is built.
\<close>

definition cachedRuntime :: runtime where
  "cachedRuntime =
     sortedFetch \<lparr>rt_cacheGet_reply := (\<lambda>tr key. Returns (Some (Num 1704060000000)))\<rparr>"

definition freshManager :: AlfaFrensManager where
  "freshManager =
     \<lparr>mgr_isRunning = False, mgr_lastProcessedTime = Num 0,
      mgr_aiInteraction = newAlfaFrensAIInteraction cachedRuntime []\<rparr>"

text \<open>
  A generation service for the examples of the correction pass: the first answer is
  \<^verbatim>\<open>Paris is in Spain. It has two million inhabitants.\<close>, the extraction lists the
  two sentences, the first is contradicted by a stored fact and the second has a low
  confidence, and the answer to the revised prompt is \<^verbatim>\<open>Paris is in France.\<close>. In
  the second runtime the call with the revised prompt takes 45 seconds.
\<close>

definition examplePrompt :: string where
  "examplePrompt = ''USER (ann): Where is Paris?''"

definition spainResponse :: string where
  "spainResponse = ''Paris is in Spain. It has two million inhabitants.''"

definition spainFacts :: string where
  "spainFacts =
     ''['' @ DQ @ ''Paris is in Spain'' @ DQ @ '', '' @ DQ @ ''Paris has two million inhabitants''
     @ DQ @ '']''"

definition correctingRuntime :: runtime where
  "correctingRuntime =
     exampleRuntime
       \<lparr>rt_generateText_reply :=
          (\<lambda>tr context modelClass.
             if length tr = 0 then Returns spainResponse
             else if length tr = 1 then Returns spainFacts
             else Returns ''Paris is in France.''),
        rt_JSON_parse :=
          (\<lambda>s. if s = spainFacts
               then Inr (JArray [JString ''Paris is in Spain'',
                                 JString ''Paris has two million inhabitants''])
               else Inl (Error ''Unexpected token'')),
        rt_validateFact_reply :=
          (\<lambda>tr factText message.
             if factText = ''Paris is in Spain''
             then Returns \<lparr>v_confidence = 0.43, v_source = m_senderId message,
                           v_timestamp = 0, v_contradictions = [''Paris is in France'']\<rparr>
             else Returns \<lparr>v_confidence = 0.5, v_source = m_senderId message,
                           v_timestamp = 0, v_contradictions = []\<rparr>)\<rparr>"

definition slowRetryRuntime :: runtime where
  "slowRetryRuntime =
     correctingRuntime
       \<lparr>rt_generateText_delay :=
          (\<lambda>tr context modelClass. if length tr \<ge> 2 then 45000 else 1200)\<rparr>"

definition spainResults :: "FactValidationResult list" where
  "spainResults =
     [\<lparr>r_fact = ''Paris is in Spain'', r_confidence = 0.43,
       r_contradictions = [''Paris is in France'']\<rparr>,
      \<lparr>r_fact = ''Paris has two million inhabitants'', r_confidence = 0.5,
       r_contradictions = []\<rparr>]"

section \<open>Properties\<close>

lemma foldl_confidence_sum:
  "foldl (\<lambda>acc c. acc + c_confidence c) a cs = a + sum_list (map c_confidence cs)"
  by (induction cs arbitrary: a) simp_all

text \<open>
  Claim C3. The confidence is always between 0 and 1. A fact sent by the agent itself
  with no contradiction scores exactly 0.7, a third party's fact with no contradiction
  scores exactly 0.5, and when there are contradictions 0.3 times their average
  confidence is subtracted from that base before the result is clamped to the interval
  from 0 to 1.
\<close>

theorem calculateFactConfidence_spec:
  "0 \<le> calculateFactConfidence agentId factText message cs
   \<and> calculateFactConfidence agentId factText message cs \<le> 1
   \<and> (m_senderId message = agentId \<and> cs = []
        \<longrightarrow> calculateFactConfidence agentId factText message cs = 0.7)
   \<and> (m_senderId message \<noteq> agentId \<and> cs = []
        \<longrightarrow> calculateFactConfidence agentId factText message cs = 0.5)
   \<and> (cs \<noteq> []
        \<longrightarrow> calculateFactConfidence agentId factText message cs =
            max 0 (min 1 ((if m_senderId message = agentId then 0.7 else 0.5)
                            - 0.3 * (sum_list (map c_confidence cs) / real (length cs)))))"
  by (simp add: calculateFactConfidence_def Let_def foldl_confidence_sum mult.commute)

theorem calculateFactConfidence_spec_witness:
  "calculateFactConfidence ''agent'' ''Paris is in France''
     \<lparr>m_id = ''1'', m_senderId = ''agent'', m_senderUsername = ''bot'', m_content = ''c'',
      m_timestamp = ''t''\<rparr> [] = 0.7
   \<and> calculateFactConfidence ''agent'' ''Paris is in France''
     \<lparr>m_id = ''1'', m_senderId = ''user-7'', m_senderUsername = ''ann'', m_content = ''c'',
      m_timestamp = ''t''\<rparr> [] = 0.5
   \<and> calculateFactConfidence ''agent'' ''Paris is in France''
     \<lparr>m_id = ''1'', m_senderId = ''agent'', m_senderUsername = ''bot'', m_content = ''c'',
      m_timestamp = ''t''\<rparr>
     [\<lparr>c_fact = ''Paris is in France'', c_existingFact = ''Paris is in Spain'',
       c_confidence = 0.8, c_timestamp = 0\<rparr>,
      \<lparr>c_fact = ''Paris is in France'', c_existingFact = ''Paris is in Peru'',
       c_confidence = 1, c_timestamp = 0\<rparr>] = 0.43"
proof -
  let ?own = "\<lparr>m_id = ''1'', m_senderId = ''agent'', m_senderUsername = ''bot'', m_content = ''c'',
      m_timestamp = ''t''\<rparr>"
  let ?other = "\<lparr>m_id = ''1'', m_senderId = ''user-7'', m_senderUsername = ''ann'',
      m_content = ''c'', m_timestamp = ''t''\<rparr>"
  let ?cs = "[\<lparr>c_fact = ''Paris is in France'', c_existingFact = ''Paris is in Spain'',
       c_confidence = 0.8, c_timestamp = 0\<rparr>,
      \<lparr>c_fact = ''Paris is in France'', c_existingFact = ''Paris is in Peru'',
       c_confidence = 1, c_timestamp = 0\<rparr>]"
  have a: "calculateFactConfidence ''agent'' ''Paris is in France'' ?own [] = 0.7"
    using calculateFactConfidence_spec [of "''agent''" "''Paris is in France''" ?own "[]"]
    by simp
  have b: "calculateFactConfidence ''agent'' ''Paris is in France'' ?other [] = 0.5"
    using calculateFactConfidence_spec [of "''agent''" "''Paris is in France''" ?other "[]"]
    by simp
  have c: "calculateFactConfidence ''agent'' ''Paris is in France'' ?own ?cs = 0.43"
    using calculateFactConfidence_spec [of "''agent''" "''Paris is in France''" ?own ?cs]
    by simp
  from a b c show ?thesis by blast
qed

subsection \<open>Storing a fact\<close>

text \<open>
  Claim C2. For every fact and validation result, \<open>storeFact\<close> issues the write of the
  fact to the memory store (one \<open>CreateMemory\<close> call carrying the fact and its
  validation) if and only if the confidence is at least 0.7. Below 0.7 the call makes
  no call at all and returns normally; it throws in no case.
\<close>

theorem storeFact_threshold:
  "((\<exists>memory. mem_text memory = factText \<and> mem_metadata memory = Some validation
       \<and> snd (storeFact rt factText validation tr) = tr @ [CreateMemory memory])
     \<longleftrightarrow> v_confidence validation \<ge> 0.7)
   \<and> (v_confidence validation < 0.7
        \<longrightarrow> storeFact rt factText validation tr = (Returns (), tr))
   \<and> (\<forall>e. fst (storeFact rt factText validation tr) \<noteq> Throws e)"
  by (auto simp: storeFact_def confidenceThreshold_def createMemory_def Let_def
           split: outcome.splits)

theorem storeFact_threshold_witness:
  "storeFact exampleRuntime ''Paris is in France''
     \<lparr>v_confidence = 0.69999, v_source = ''agent-1'', v_timestamp = 0, v_contradictions = []\<rparr> []
     = (Returns (), [])
   \<and> (\<exists>memory. mem_text memory = ''Paris is in France''
        \<and> snd (storeFact exampleRuntime ''Paris is in France''
             \<lparr>v_confidence = 0.7, v_source = ''agent-1'', v_timestamp = 0,
              v_contradictions = []\<rparr> []) = [CreateMemory memory])"
proof -
  let ?low = "\<lparr>v_confidence = 0.69999, v_source = ''agent-1'', v_timestamp = 0,
     v_contradictions = []\<rparr>"
  let ?ok = "\<lparr>v_confidence = 0.7, v_source = ''agent-1'', v_timestamp = 0,
     v_contradictions = []\<rparr>"
  have "storeFact exampleRuntime ''Paris is in France'' ?low [] = (Returns (), [])"
    using storeFact_threshold [of "''Paris is in France''" ?low exampleRuntime "[]"] by simp
  moreover have "\<exists>memory. mem_text memory = ''Paris is in France''
        \<and> snd (storeFact exampleRuntime ''Paris is in France'' ?ok []) = [CreateMemory memory]"
    using storeFact_threshold [of "''Paris is in France''" ?ok exampleRuntime "[]"] by auto
  ultimately show ?thesis by blast
qed

subsection \<open>The heuristic extraction\<close>




























subsection \<open>The extraction through the generation service\<close>

text \<open>
  Claim C6, as amended. \<open>extractFacts\<close> never throws. When the generation call fails,
  when its output holds no bracketed part, when \<^verbatim>\<open>JSON.parse\<close> fails on that part and
  when it parses to something that is no array, the result is the heuristic extraction
  from the input text. Otherwise it is the parsed array filtered to the strings that
  are not empty after white space (the no-break space included) is trimmed from both
  ends.
\<close>

theorem extractFacts_fallback:
  "(\<forall>e. fst (extractFacts rt content tr) \<noteq> Throws e)
   \<and> (\<forall>e tr'. generateText rt (extractFactsPrompt content) SMALL tr = (Throws e, tr')
        \<longrightarrow> extractFacts rt content tr = (Returns (extractFactsFallback content), tr'))
   \<and> (\<forall>result tr'. generateText rt (extractFactsPrompt content) SMALL tr = (Returns result, tr')
          \<and> matchJsonArray result = None
        \<longrightarrow> extractFacts rt content tr = (Returns (extractFactsFallback content), tr'))
   \<and> (\<forall>result tr' jsonStr parseError.
          generateText rt (extractFactsPrompt content) SMALL tr = (Returns result, tr')
          \<and> matchJsonArray result = Some jsonStr \<and> rt_JSON_parse rt jsonStr = Inl parseError
        \<longrightarrow> extractFacts rt content tr = (Returns (extractFactsFallback content), tr'))
   \<and> (\<forall>result tr' jsonStr parsed.
          generateText rt (extractFactsPrompt content) SMALL tr = (Returns result, tr')
          \<and> matchJsonArray result = Some jsonStr \<and> rt_JSON_parse rt jsonStr = Inr parsed
          \<and> (\<forall>facts. parsed \<noteq> JArray facts)
        \<longrightarrow> extractFacts rt content tr = (Returns (extractFactsFallback content), tr'))
   \<and> (\<forall>result tr' jsonStr facts.
          generateText rt (extractFactsPrompt content) SMALL tr = (Returns result, tr')
          \<and> matchJsonArray result = Some jsonStr \<and> rt_JSON_parse rt jsonStr = Inr (JArray facts)
        \<longrightarrow> extractFacts rt content tr
            = (Returns (map stringOf
                 (filter (\<lambda>f. isString f \<and> trim (stringOf f) \<noteq> []) facts)), tr'))"
proof -
  have 1: "\<forall>e. fst (extractFacts rt content tr) \<noteq> Throws e"
    by (auto simp: extractFacts_def split: outcome.splits option.splits sum.splits json.splits prod.splits)
  have 2: "extractFacts rt content tr = (Returns (extractFactsFallback content), tr')"
    if "generateText rt (extractFactsPrompt content) SMALL tr = (Throws e, tr')" for e tr'
    using that by (simp add: extractFacts_def)
  have 3: "extractFacts rt content tr = (Returns (extractFactsFallback content), tr')"
    if "generateText rt (extractFactsPrompt content) SMALL tr = (Returns result, tr')"
       "matchJsonArray result = None" for result tr'
    using that by (simp add: extractFacts_def)
  have 4: "extractFacts rt content tr = (Returns (extractFactsFallback content), tr')"
    if "generateText rt (extractFactsPrompt content) SMALL tr = (Returns result, tr')"
       "matchJsonArray result = Some jsonStr" "rt_JSON_parse rt jsonStr = Inl parseError"
    for result tr' jsonStr parseError
    using that by (simp add: extractFacts_def)
  have 5: "extractFacts rt content tr = (Returns (extractFactsFallback content), tr')"
    if "generateText rt (extractFactsPrompt content) SMALL tr = (Returns result, tr')"
       "matchJsonArray result = Some jsonStr" "rt_JSON_parse rt jsonStr = Inr parsed"
       "\<forall>facts. parsed \<noteq> JArray facts"
    for result tr' jsonStr parsed
    using that by (cases parsed) (simp_all add: extractFacts_def)
  have 6: "extractFacts rt content tr
            = (Returns (map stringOf
                 (filter (\<lambda>f. isString f \<and> trim (stringOf f) \<noteq> []) facts)), tr')"
    if "generateText rt (extractFactsPrompt content) SMALL tr = (Returns result, tr')"
       "matchJsonArray result = Some jsonStr" "rt_JSON_parse rt jsonStr = Inr (JArray facts)"
    for result tr' jsonStr facts
    using that by (simp add: extractFacts_def validFacts_def)
  from 1 2 3 4 5 6 show ?thesis by blast
qed

lemma validFacts_examples:
  "validFacts [JString [CHR 0xA0], JString ''x''] = [''x'']"
  "validFacts [JString [CHR 0xA0, CHR 0x09, CHR 0x20], JNull, JString '' Paris is in France '']
   = ['' Paris is in France '']"
  by code_simp+

lemma fallback_example: "extractFactsFallback exampleText = [''Acme was founded in 1999'']"
  by code_simp

lemma match_examples:
  "matchJsonArray ''There is one fact.'' = None"
  "matchJsonArray ''[Acme, founded 1999]'' = Some ''[Acme, founded 1999]''"
  "matchJsonArray blankReply
   = Some (''['' @ DQ @ ''  '' @ DQ @ '', '' @ DQ @ ''Paris is in France'' @ DQ @ '']'')"
  by (simp_all add: matchJsonArray_def blankReply_def DQ_def)

theorem extractFacts_fallback_witness:
  "fst (extractFacts failingGenerator exampleText []) = Returns [''Acme was founded in 1999'']
   \<and> fst (extractFacts proseGenerator exampleText []) = Returns [''Acme was founded in 1999'']
   \<and> fst (extractFacts brokenJsonGenerator exampleText []) = Returns [''Acme was founded in 1999'']
   \<and> fst (extractFacts objectParser exampleText []) = Returns [''Acme was founded in 1999'']
   \<and> fst (extractFacts blankRuntime exampleText []) = Returns [''Paris is in France'']"
proof -
  let ?tr = "[GenerateText (extractFactsPrompt exampleText) SMALL]"
  have a: "generateText failingGenerator (extractFactsPrompt exampleText) SMALL []
           = (Throws (Error ''service unavailable''), ?tr)"
    by (simp add: generateText_def failingGenerator_def exampleRuntime_def)
  have b: "generateText proseGenerator (extractFactsPrompt exampleText) SMALL []
           = (Returns ''There is one fact.'', ?tr)"
    by (simp add: generateText_def proseGenerator_def exampleRuntime_def)
  have c: "generateText brokenJsonGenerator (extractFactsPrompt exampleText) SMALL []
           = (Returns ''[Acme, founded 1999]'', ?tr)"
      "rt_JSON_parse brokenJsonGenerator ''[Acme, founded 1999]'' = Inl (Error ''Unexpected token'')"
    by (simp_all add: generateText_def brokenJsonGenerator_def exampleRuntime_def)
  have d: "generateText objectParser (extractFactsPrompt exampleText) SMALL []
           = (Returns ''[Acme, founded 1999]'', ?tr)"
      "rt_JSON_parse objectParser ''[Acme, founded 1999]'' = Inr (JObject [])"
    by (simp_all add: generateText_def objectParser_def brokenJsonGenerator_def exampleRuntime_def)
  have e: "generateText blankRuntime (extractFactsPrompt exampleText) SMALL []
           = (Returns blankReply, ?tr)"
      "rt_JSON_parse blankRuntime
         (''['' @ DQ @ ''  '' @ DQ @ '', '' @ DQ @ ''Paris is in France'' @ DQ @ '']'')
       = Inr (JArray [JString ''  '', JString ''Paris is in France''])"
    by (simp_all add: generateText_def blankRuntime_def exampleRuntime_def)
  have trimmed: "map stringOf (filter (\<lambda>f. isString f \<and> trim (stringOf f) \<noteq> [])
        [JString ''  '', JString ''Paris is in France'']) = [''Paris is in France'']"
    by (simp add: trim_def isWhiteSpace_def)
  have 1: "fst (extractFacts failingGenerator exampleText []) = Returns [''Acme was founded in 1999'']"
    using extractFacts_fallback [of failingGenerator exampleText "[]"] a fallback_example by simp
  have 2: "fst (extractFacts proseGenerator exampleText []) = Returns [''Acme was founded in 1999'']"
    using extractFacts_fallback [of proseGenerator exampleText "[]"] b match_examples(1)
      fallback_example by simp
  have 3: "fst (extractFacts brokenJsonGenerator exampleText []) = Returns [''Acme was founded in 1999'']"
    using extractFacts_fallback [of brokenJsonGenerator exampleText "[]"] c match_examples(2)
      fallback_example by simp
  have 4: "fst (extractFacts objectParser exampleText []) = Returns [''Acme was founded in 1999'']"
    using extractFacts_fallback [of objectParser exampleText "[]"] d match_examples(2)
      fallback_example by simp
  have 5: "fst (extractFacts blankRuntime exampleText []) = Returns [''Paris is in France'']"
    using extractFacts_fallback [of blankRuntime exampleText "[]"] e match_examples(3) trimmed
    by simp
  from 1 2 3 4 5 show ?thesis by blast
qed

text \<open>
  The claim as stated (the parsed array filtered to the non-empty strings) fails when
  the generation service lists a string of two blanks: the string is not empty, and the
  result leaves it out.
\<close>

theorem extractFacts_blank_counterexample:
  "fst (extractFacts blankRuntime exampleText []) = Returns [''Paris is in France'']
   \<and> map stringOf (filter (\<lambda>f. isString f \<and> stringOf f \<noteq> [])
        [JString ''  '', JString ''Paris is in France'']) = [''  '', ''Paris is in France'']"
  by code_simp

subsection \<open>The timeout of the generation\<close>

text \<open>
  Claim C8. When the generation call has not settled after 30 seconds (it never
  settles, or it takes longer than 30000 milliseconds), \<open>generateLLMResponse\<close> throws
  the error "LLM request timed out", and \<open>generatePostContent\<close> returns the fallback
  sentence instead of that error. In both, the generation call is the one call made.
\<close>

theorem generatePostContent_timeout:
  "rt_processTemplate rt template = Inr context
   \<and> (rt_generateText_reply rt tr context modelClass = Hangs
       \<or> rt_generateText_delay rt tr context modelClass > 30000)
   \<longrightarrow> generateLLMResponse rt context modelClass traceId tr
         = (Throws (Error ''LLM request timed out''), tr @ [GenerateText context modelClass])
       \<and> generatePostContent rt template modelClass tr
         = (Returns ''I'm sorry, I couldn't generate a post at this time.'',
            tr @ [GenerateText context modelClass])"
  by (auto simp: generatePostContent_def generateLLMResponse_def generateText_def Let_def
        timeoutMs_def timeoutError_def postFallback_def split: outcome.splits)

theorem generatePostContent_timeout_witness:
  "generatePostContent hangingGenerator ''Write a post.'' MEDIUM []
     = (Returns ''I'm sorry, I couldn't generate a post at this time.'',
        [GenerateText ''Write a post.'' MEDIUM])
   \<and> generatePostContent slowGenerator ''Write a post.'' MEDIUM []
     = (Returns ''I'm sorry, I couldn't generate a post at this time.'',
        [GenerateText ''Write a post.'' MEDIUM])
   \<and> generateLLMResponse slowGenerator ''Write a post.'' MEDIUM ''post'' []
     = (Throws (Error ''LLM request timed out''), [GenerateText ''Write a post.'' MEDIUM])"
proof -
  have a: "rt_processTemplate hangingGenerator ''Write a post.'' = Inr ''Write a post.''"
       "rt_generateText_reply hangingGenerator [] ''Write a post.'' MEDIUM = Hangs"
    by (simp_all add: hangingGenerator_def exampleRuntime_def)
  have b: "rt_processTemplate slowGenerator ''Write a post.'' = Inr ''Write a post.''"
       "rt_generateText_delay slowGenerator [] ''Write a post.'' MEDIUM > 30000"
    by (simp_all add: slowGenerator_def exampleRuntime_def)
  from generatePostContent_timeout
         [of hangingGenerator "''Write a post.''" "''Write a post.''" "[]" MEDIUM "''post''"] a
  have 1: "generatePostContent hangingGenerator ''Write a post.'' MEDIUM []
     = (Returns ''I'm sorry, I couldn't generate a post at this time.'',
        [GenerateText ''Write a post.'' MEDIUM])" by simp
  from generatePostContent_timeout
         [of slowGenerator "''Write a post.''" "''Write a post.''" "[]" MEDIUM "''post''"] b
  have 2: "generateLLMResponse slowGenerator ''Write a post.'' MEDIUM ''post'' []
         = (Throws (Error ''LLM request timed out''), [GenerateText ''Write a post.'' MEDIUM])
       \<and> generatePostContent slowGenerator ''Write a post.'' MEDIUM []
         = (Returns ''I'm sorry, I couldn't generate a post at this time.'',
            [GenerateText ''Write a post.'' MEDIUM])" by simp
  from 1 2 show ?thesis by blast
qed

subsection \<open>The default of the API client\<close>

lemma getMessagesUrl_shape:
  "getMessagesUrl options now =
     ''/api/ai/getChannelMessages?since=''
     @ showNumber (if truthyOption (o_since options) then the (o_since options)
                   else Num (now - 3600000))
     @ ((if truthyOption (o_until options)
         then ''&until='' @ showNumber (the (o_until options)) else [])
        @ (if o_includeReplies options then ''&include=reactions,replies''
           else if o_includeReactions options then ''&include=reactions'' else []))"
proof (cases "truthyOption (o_until options)"; cases "o_includeReplies options";
       cases "o_includeReactions options")
qed (simp_all add: getMessagesUrl_def Let_def del: append_Cons)

text \<open>
  Claim C10. When the option \<open>since\<close> is absent or 0, the request carries
  \<open>since\<close> equal to the current time minus 3600000 milliseconds, followed by nothing
  or by further parameters; a call with \<open>since = 0\<close> makes the same request as a call
  without \<open>since\<close>.
\<close>

theorem getMessages_since_default:
  "o_since options = None \<or> o_since options = Some (Num 0)
   \<longrightarrow> (\<exists>rest. snd (apiGetMessages rt options tr)
                = tr @ [Fetch (''/api/ai/getChannelMessages?since=''
                               @ showInt (rt_dateNow rt tr - 3600000) @ rest)]
              \<and> (rest = [] \<or> hd rest = CHR ''&''))
       \<and> apiGetMessages rt options tr = apiGetMessages rt (options\<lparr>o_since := None\<rparr>) tr"
proof
  assume h: "o_since options = None \<or> o_since options = Some (Num 0)"
  then have falsy: "\<not> truthyOption (o_since options)" by auto
  let ?rest = "(if truthyOption (o_until options)
         then ''&until='' @ showNumber (the (o_until options)) else [])
        @ (if o_includeReplies options then ''&include=reactions,replies''
           else if o_includeReactions options then ''&include=reactions'' else [])"
  have url: "getMessagesUrl options (rt_dateNow rt tr) =
      ''/api/ai/getChannelMessages?since='' @ showInt (rt_dateNow rt tr - 3600000) @ ?rest"
    using falsy by (simp only: getMessagesUrl_shape if_False showNumber.simps)
  have r: "?rest = [] \<or> hd ?rest = CHR ''&''" by simp
  have one: "\<exists>rest. snd (apiGetMessages rt options tr)
                = tr @ [Fetch (''/api/ai/getChannelMessages?since=''
                               @ showInt (rt_dateNow rt tr - 3600000) @ rest)]
              \<and> (rest = [] \<or> hd rest = CHR ''&'')"
    unfolding apiGetMessages_def apiFetch_def snd_conv url using r by blast
  have same: "getMessagesUrl options (rt_dateNow rt tr)
      = getMessagesUrl (options\<lparr>o_since := None\<rparr>) (rt_dateNow rt tr)"
    using falsy by (simp only: getMessagesUrl_shape) simp
  have two: "apiGetMessages rt options tr = apiGetMessages rt (options\<lparr>o_since := None\<rparr>) tr"
    unfolding apiGetMessages_def same ..
  from one two show "(\<exists>rest. snd (apiGetMessages rt options tr)
                = tr @ [Fetch (''/api/ai/getChannelMessages?since=''
                               @ showInt (rt_dateNow rt tr - 3600000) @ rest)]
              \<and> (rest = [] \<or> hd rest = CHR ''&''))
       \<and> apiGetMessages rt options tr = apiGetMessages rt (options\<lparr>o_since := None\<rparr>) tr"
    by (rule conjI)
qed

lemma showInt_example: "showInt 1704063600000 = ''1704063600000''"
  by (simp add: showInt_def showNat.simps)

theorem getMessages_since_default_witness:
  "apiGetMessages exampleRuntime
          \<lparr>o_since = Some (Num 0), o_until = None, o_includeReactions = False,
           o_includeReplies = False\<rparr> []
   = apiGetMessages exampleRuntime
          \<lparr>o_since = None, o_until = None, o_includeReactions = False,
           o_includeReplies = False\<rparr> []
   \<and> snd (apiGetMessages exampleRuntime
          \<lparr>o_since = None, o_until = None, o_includeReactions = False,
           o_includeReplies = False\<rparr> [])
   = [Fetch ''/api/ai/getChannelMessages?since=1704063600000'']"
proof -
  let ?o = "\<lparr>o_since = Some (Num 0), o_until = None, o_includeReactions = False,
           o_includeReplies = False\<rparr>"
  let ?n = "\<lparr>o_since = None, o_until = None, o_includeReactions = False,
           o_includeReplies = False\<rparr>"
  have now: "rt_dateNow exampleRuntime [] = 1704067200000"
    by (simp add: exampleRuntime_def)
  have a: "apiGetMessages exampleRuntime ?o [] = apiGetMessages exampleRuntime ?n []"
    using getMessages_since_default [of ?o exampleRuntime "[]"] by simp
  have "getMessagesUrl ?n 1704067200000 = ''/api/ai/getChannelMessages?since='' @ showInt 1704063600000"
    by (simp add: getMessagesUrl_shape)
  then have b: "snd (apiGetMessages exampleRuntime ?n []) = [Fetch ''/api/ai/getChannelMessages?since=1704063600000'']"
    unfolding apiGetMessages_def apiFetch_def now showInt_example by simp
  from a b show ?thesis by blast
qed

subsection \<open>The poll loop\<close>

lemma processMessage_own:
  "isOwnMessage config (ai_sentMessageIds this) m
   \<Longrightarrow> processMessage rt config m this tr = (Returns (), this, tr)"
  by (auto simp: processMessage_def isOwnMessage_def Let_def)

lemma processMessage_effect:
  assumes "processMessage rt config m this tr = (out, this', tr')"
  shows "ai_sentMessageIds this \<subseteq> ai_sentMessageIds this'
         \<and> ai_lastProcessedTime this' = ai_lastProcessedTime this
         \<and> ai_isRunning this' = ai_isRunning this
         \<and> ai_messageHistory this' = ai_messageHistory this
         \<and> prefix tr tr'
         \<and> (\<forall>c \<in> set tr'. c \<in> set tr
               \<or> (\<not> isOwnMessage config (ai_sentMessageIds this) m
                   \<and> (c = CreateMemory (createAlfaFrensMemory rt config m)
                       \<or> c = EvaluateMessage m
                       \<or> c = GenerateResponse m (sliceLast 10 (ai_messageHistory this))
                       \<or> (\<exists>r. c = SendMessage r (Some (m_id m))))))"
proof (cases "isOwnMessage config (ai_sentMessageIds this) m")
  case True
  with assms processMessage_own[OF True, of rt tr] show ?thesis by simp
next
  case False
  then have n: "m_id m \<notin> ai_sentMessageIds this" "m_senderId m \<noteq> cfg_userId config"
    "\<not> (replaceAt (m_senderUsername m) \<noteq> [] \<and> replaceAt (cfg_username config) \<noteq> []
        \<and> replaceAt (m_senderUsername m) = replaceAt (cfg_username config))"
    by (auto simp: isOwnMessage_def)
  from assms n False show ?thesis
    unfolding processMessage_def Let_def createMemory_def evaluateMessage_def
      generateResponseUtil_def sendMessage_def
    by (auto split: outcome.splits if_splits)
qed

lemma isOwnMessage_mono:
  "isOwnMessage config S m \<Longrightarrow> S \<subseteq> S' \<Longrightarrow> isOwnMessage config S' m"
  by (auto simp: isOwnMessage_def)

lemma processMessageBatch_effect:
  "processMessageBatch rt config ms this tr = (out, this', tr')
   \<Longrightarrow> ai_sentMessageIds this \<subseteq> ai_sentMessageIds this'
       \<and> ai_lastProcessedTime this' = ai_lastProcessedTime this
       \<and> ai_isRunning this' = ai_isRunning this
       \<and> prefix tr tr'
       \<and> (\<forall>m. isOwnMessage config (ai_sentMessageIds this) m
             \<longrightarrow> (\<forall>c \<in> set tr'. c \<in> set tr
                     \<or> (c \<noteq> EvaluateMessage m \<and> (\<forall>h. c \<noteq> GenerateResponse m h))))"
proof (induction ms arbitrary: this tr)
  case Nil
  then show ?case by simp
next
  case (Cons a ms)
  obtain o1 this1 tr1 where p: "processMessage rt config a this tr = (o1, this1, tr1)"
    by (cases "processMessage rt config a this tr") auto
  note e = processMessage_effect[OF p]
  have own: "\<forall>c \<in> set tr1. c \<in> set tr
                     \<or> (c \<noteq> EvaluateMessage m \<and> (\<forall>h. c \<noteq> GenerateResponse m h))"
    if "isOwnMessage config (ai_sentMessageIds this) m" for m
    using e that by auto
  show ?case
  proof (cases o1)
    case (Returns u)
    with p Cons.prems have r: "processMessageBatch rt config ms this1 tr1 = (out, this', tr')"
      by simp
    note ih = Cons.IH[OF r]
    have "\<forall>c \<in> set tr'. c \<in> set tr
                     \<or> (c \<noteq> EvaluateMessage m \<and> (\<forall>h. c \<noteq> GenerateResponse m h))"
      if o: "isOwnMessage config (ai_sentMessageIds this) m" for m
    proof -
      from o e have "isOwnMessage config (ai_sentMessageIds this1) m"
        by (auto intro: isOwnMessage_mono)
      with ih have "\<forall>c \<in> set tr'. c \<in> set tr1
                     \<or> (c \<noteq> EvaluateMessage m \<and> (\<forall>h. c \<noteq> GenerateResponse m h))" by blast
      with own[OF o] show ?thesis by blast
    qed
    moreover have "prefix tr tr'" using e ih by (meson prefix_order.trans)
    ultimately show ?thesis using e ih by auto
  next
    case (Throws x)
    with p Cons.prems have "this' = this1" "tr' = tr1" by auto
    with e own show ?thesis by blast
  next
    case Hangs
    with p Cons.prems have "this' = this1" "tr' = tr1" by auto
    with e own show ?thesis by blast
  qed
qed

text \<open>
  Claim C4, as amended. A message whose id is among the sent message ids, or whose
  sender id is the configured user id, or whose username and the configured username
  are equal and not empty after the first \<^verbatim>\<open>@\<close> is removed from each, is skipped: the
  loop body leaves the state and the calls as they are, and a batch neither evaluates
  the message nor generates a response to it.
\<close>

theorem processMessageBatch_skips_own:
  "isOwnMessage config (ai_sentMessageIds this) m
   \<longrightarrow> processMessage rt config m this tr = (Returns (), this, tr)
       \<and> (\<forall>c \<in> set (snd (snd (processMessageBatch rt config ms this tr))).
             c \<in> set tr \<or> (c \<noteq> EvaluateMessage m \<and> (\<forall>h. c \<noteq> GenerateResponse m h)))"
proof
  assume o: "isOwnMessage config (ai_sentMessageIds this) m"
  obtain out this' tr' where p: "processMessageBatch rt config ms this tr = (out, this', tr')"
    by (cases "processMessageBatch rt config ms this tr") auto
  from processMessageBatch_effect[OF p] o
  have "\<forall>c \<in> set tr'. c \<in> set tr \<or> (c \<noteq> EvaluateMessage m \<and> (\<forall>h. c \<noteq> GenerateResponse m h))"
    by blast
  with p processMessage_own[OF o]
  show "processMessage rt config m this tr = (Returns (), this, tr)
       \<and> (\<forall>c \<in> set (snd (snd (processMessageBatch rt config ms this tr))).
             c \<in> set tr \<or> (c \<noteq> EvaluateMessage m \<and> (\<forall>h. c \<noteq> GenerateResponse m h)))"
    by simp
qed

theorem processMessageBatch_skips_own_witness:
  "processMessage exampleRuntime exampleConfig ownMessage runningInteraction []
     = (Returns (), runningInteraction, [])
   \<and> EvaluateMessage ownMessage
       \<notin> set (snd (snd (processMessageBatch exampleRuntime exampleConfig
                          [messageAt3, ownMessage] runningInteraction [])))
   \<and> GenerateResponse ownMessage []
       \<notin> set (snd (snd (processMessageBatch exampleRuntime exampleConfig
                          [messageAt3, ownMessage] runningInteraction [])))"
proof -
  have own: "isOwnMessage exampleConfig (ai_sentMessageIds runningInteraction) ownMessage"
    by (simp add: isOwnMessage_def exampleConfig_def ownMessage_def)
  from processMessageBatch_skips_own
         [of exampleConfig runningInteraction ownMessage exampleRuntime "[]"
             "[messageAt3, ownMessage]"] own
  show ?thesis by auto
qed

lemma others_are_evaluated:
  "snd (snd (processMessageBatch exampleRuntime exampleConfig
                          [messageAt3, ownMessage] runningInteraction []))
   = [CreateMemory (createAlfaFrensMemory exampleRuntime exampleConfig messageAt3),
      EvaluateMessage messageAt3, GenerateResponse messageAt3 [],
      SendMessage ''Hello.'' (Some ''m-3'')]"
  by (simp add: processMessage_def Let_def createMemory_def evaluateMessage_def
      generateResponseUtil_def sendMessage_def exampleRuntime_def exampleConfig_def
      runningInteraction_def messageAt3_def ownMessage_def sliceLast_def)

text \<open>
  The claim as stated compares the usernames after a leading \<^verbatim>\<open>@\<close> is stripped. Two
  messages that it counts as the bot's own are evaluated and answered: one under the
  handle \<^verbatim>\<open>@fren@example.com\<close> when the configured username is
  \<^verbatim>\<open>fren@example.com\<close> (the code removes the first \<^verbatim>\<open>@\<close> of each, wherever it stands),
  and one with no username when no username is configured (the code compares only
  usernames that are not empty).
\<close>

theorem processMessageBatch_own_counterexample:
  "spec_isOwnMessage federatedConfig (ai_sentMessageIds runningInteraction) federatedMessage
   \<and> EvaluateMessage federatedMessage
       \<in> set (snd (snd (processMessageBatch exampleRuntime federatedConfig [federatedMessage]
                          runningInteraction [])))
   \<and> GenerateResponse federatedMessage []
       \<in> set (snd (snd (processMessageBatch exampleRuntime federatedConfig [federatedMessage]
                          runningInteraction [])))
   \<and> spec_isOwnMessage namelessConfig (ai_sentMessageIds runningInteraction) namelessMessage
   \<and> EvaluateMessage namelessMessage
       \<in> set (snd (snd (processMessageBatch exampleRuntime namelessConfig [namelessMessage]
                          runningInteraction [])))
   \<and> GenerateResponse namelessMessage []
       \<in> set (snd (snd (processMessageBatch exampleRuntime namelessConfig [namelessMessage]
                          runningInteraction [])))"
  by (simp add: spec_isOwnMessage_def stripLeadingAt_def processMessage_def Let_def
      createMemory_def evaluateMessage_def generateResponseUtil_def sendMessage_def
      exampleRuntime_def exampleConfig_def federatedConfig_def namelessConfig_def
      runningInteraction_def federatedMessage_def namelessMessage_def sliceLast_def)

lemma processBatches_effect:
  "processBatches rt config bs this tr = (out, this', tr')
   \<Longrightarrow> ai_lastProcessedTime this' = ai_lastProcessedTime this
       \<and> ai_isRunning this' = ai_isRunning this
       \<and> prefix tr tr'"
proof (induction bs arbitrary: this tr)
  case Nil
  then show ?case by simp
next
  case (Cons b bs)
  obtain o1 this1 tr1 where p: "processMessageBatch rt config b this tr = (o1, this1, tr1)"
    by (cases "processMessageBatch rt config b this tr") auto
  note e = processMessageBatch_effect[OF p]
  show ?case
  proof (cases "o1 = Hangs")
    case True
    with p Cons.prems have "this' = this1" "tr' = tr1" by auto
    with e show ?thesis by simp
  next
    case False
    with p Cons.prems have "processBatches rt config bs this1 tr1 = (out, this', tr')"
      by (cases o1) auto
    from Cons.IH[OF this] e show ?thesis by (auto intro: prefix_order.trans)
  qed
qed

lemma processMessages_lastProcessedTime:
  assumes "ai_isRunning this"
    and "getMessages rt (Some (ai_lastProcessedTime this)) tr = (Returns messages, tr1)"
  shows "ai_lastProcessedTime (fst (snd (processMessages rt config this tr)))
         = (if messages = [] then ai_lastProcessedTime this
            else plusNumber (rt_dateGetTime rt (m_timestamp (last messages))) 1)"
proof (cases "messages = []")
  case True
  with assms show ?thesis by (simp add: processMessages_def)
next
  case False
  let ?this2 = "this\<lparr>ai_messageHistory := sliceLast 50 (ai_messageHistory this @ messages),
                      ai_lastProcessedTime :=
                        plusNumber (rt_dateGetTime rt (m_timestamp (last messages))) 1\<rparr>"
  obtain out this' tr' where
    p: "processBatches rt config (messageBatches 10 messages) ?this2 tr1 = (out, this', tr')"
    by (cases "processBatches rt config (messageBatches 10 messages) ?this2 tr1") auto
  from assms False p have "processMessages rt config this tr = (out, this', tr')"
    by (simp add: processMessages_def Let_def)
  with processBatches_effect[OF p] False show ?thesis by simp
qed

lemma processMessages_first_call:
  assumes "ai_isRunning this"
  shows "\<exists>rest. snd (snd (processMessages rt config this tr))
                = tr @ GetMessages (Some (ai_lastProcessedTime this)) # rest"
proof -
  let ?tr1 = "tr @ [GetMessages (Some (ai_lastProcessedTime this))]"
  have g: "snd (getMessages rt (Some (ai_lastProcessedTime this)) tr) = ?tr1"
    by (simp add: getMessages_def)
  have "prefix ?tr1 (snd (snd (processMessages rt config this tr)))"
  proof (cases "fst (getMessages rt (Some (ai_lastProcessedTime this)) tr)")
    case (Returns messages)
    with g have gm: "getMessages rt (Some (ai_lastProcessedTime this)) tr = (Returns messages, ?tr1)"
      by (metis prod.collapse)
    show ?thesis
    proof (cases "messages = []")
      case True
      with assms gm show ?thesis by (simp add: processMessages_def)
    next
      case False
      let ?this2 = "this\<lparr>ai_messageHistory := sliceLast 50 (ai_messageHistory this @ messages),
                      ai_lastProcessedTime :=
                        plusNumber (rt_dateGetTime rt (m_timestamp (last messages))) 1\<rparr>"
      obtain out this' tr' where
        p: "processBatches rt config (messageBatches 10 messages) ?this2 ?tr1 = (out, this', tr')"
        by (cases "processBatches rt config (messageBatches 10 messages) ?this2 ?tr1") auto
      from assms False gm p have "processMessages rt config this tr = (out, this', tr')"
        by (simp add: processMessages_def Let_def)
      with processBatches_effect[OF p] show ?thesis by simp
    qed
  next
    case (Throws e)
    with g have "getMessages rt (Some (ai_lastProcessedTime this)) tr = (Throws e, ?tr1)"
      by (metis prod.collapse)
    with assms show ?thesis by (simp add: processMessages_def)
  next
    case Hangs
    with g have "getMessages rt (Some (ai_lastProcessedTime this)) tr = (Hangs, ?tr1)"
      by (metis prod.collapse)
    with assms show ?thesis by (simp add: processMessages_def)
  qed
  then obtain rest where "snd (snd (processMessages rt config this tr)) = ?tr1 @ rest"
    unfolding prefix_def by blast
  then show ?thesis by simp
qed

lemma processMessages_isRunning:
  "ai_isRunning (fst (snd (processMessages rt config this tr))) = ai_isRunning this"
proof (cases "ai_isRunning this")
  case False
  then show ?thesis by (simp add: processMessages_def)
next
  case True
  show ?thesis
  proof (cases "getMessages rt (Some (ai_lastProcessedTime this)) tr")
    case (Pair r tr1)
    show ?thesis
    proof (cases r)
      case (Returns messages)
      show ?thesis
      proof (cases "messages = []")
        case True
        with Pair Returns \<open>ai_isRunning this\<close> show ?thesis by (simp add: processMessages_def)
      next
        case False
        let ?this2 = "this\<lparr>ai_messageHistory := sliceLast 50 (ai_messageHistory this @ messages),
                      ai_lastProcessedTime :=
                        plusNumber (rt_dateGetTime rt (m_timestamp (last messages))) 1\<rparr>"
        obtain out this' tr' where
          p: "processBatches rt config (messageBatches 10 messages) ?this2 tr1 = (out, this', tr')"
          by (cases "processBatches rt config (messageBatches 10 messages) ?this2 tr1") auto
        from True False Pair Returns p have "processMessages rt config this tr = (out, this', tr')"
          by (simp add: processMessages_def Let_def)
        with processBatches_effect[OF p] show ?thesis by simp
      qed
    next
      case (Throws e)
      with Pair True show ?thesis by (simp add: processMessages_def)
    next
      case Hangs
      with Pair True show ?thesis by (simp add: processMessages_def)
    qed
  qed
qed

lemma sorted_Max_last:
  "xs \<noteq> [] \<Longrightarrow> sorted xs \<Longrightarrow> Max (set xs) = last (xs :: int list)"
proof (induction xs)
  case Nil
  then show ?case by simp
next
  case (Cons x xs)
  show ?case
  proof (cases "xs = []")
    case True
    then show ?thesis by simp
  next
    case False
    with Cons have m: "Max (set xs) = last xs" by simp
    from False have "last xs \<in> set xs" by simp
    with Cons.prems have "x \<le> last xs" by auto
    with m False show ?thesis by (simp add: max_def)
  qed
qed

text \<open>
  Claim C1. Take a poll cycle whose fetch returns a batch. The remote system returns a
  batch in ascending order of time, and the timestamps are dates. When the batch is not
  empty and \<open>T\<close> is its maximum time, the checkpoint afterwards is \<open>T + 1\<close> and the next
  cycle starts with a fetch whose \<open>since\<close> is \<open>T + 1\<close>, whatever the number of messages
  at the time \<open>T\<close>. When the batch is empty, the checkpoint is unchanged.
\<close>

theorem processMessages_checkpoint:
  "ai_isRunning this
   \<and> getMessages rt (Some (ai_lastProcessedTime this)) tr = (Returns messages, tr1)
   \<longrightarrow> (messages = []
        \<longrightarrow> ai_lastProcessedTime (fst (snd (processMessages rt config this tr)))
            = ai_lastProcessedTime this)
       \<and> (messages \<noteq> [] \<and> (\<forall>m \<in> set messages. rt_dateGetTime rt (m_timestamp m) \<noteq> NaN)
           \<and> sorted (map (createdAt rt) messages)
            \<longrightarrow> ai_lastProcessedTime (fst (snd (processMessages rt config this tr)))
                = Num (Max (createdAt rt ` set messages) + 1)
              \<and> (\<exists>rest. snd (snd (processMessages rt config
                               (fst (snd (processMessages rt config this tr)))
                               (snd (snd (processMessages rt config this tr)))))
                  = snd (snd (processMessages rt config this tr))
                    @ GetMessages (Some (Num (Max (createdAt rt ` set messages) + 1))) # rest))"
proof
  assume h: "ai_isRunning this
   \<and> getMessages rt (Some (ai_lastProcessedTime this)) tr = (Returns messages, tr1)"
  note l = processMessages_lastProcessedTime[of this rt tr messages tr1 config]
  have a: "messages = []
        \<longrightarrow> ai_lastProcessedTime (fst (snd (processMessages rt config this tr)))
            = ai_lastProcessedTime this"
    using h l by simp
  have b: "messages \<noteq> []
            \<longrightarrow> ai_lastProcessedTime (fst (snd (processMessages rt config this tr)))
                = plusNumber (rt_dateGetTime rt (m_timestamp (last messages))) 1"
    using h l by simp
  have d: "\<exists>rest. snd (snd (processMessages rt config
                               (fst (snd (processMessages rt config this tr)))
                               (snd (snd (processMessages rt config this tr)))))
                  = snd (snd (processMessages rt config this tr))
                    @ GetMessages
                        (Some (ai_lastProcessedTime
                                 (fst (snd (processMessages rt config this tr))))) # rest"
    using h by (intro processMessages_first_call) (simp add: processMessages_isRunning)
  have c: "ai_lastProcessedTime (fst (snd (processMessages rt config this tr)))
                = Num (Max (createdAt rt ` set messages) + 1)
              \<and> (\<exists>rest. snd (snd (processMessages rt config
                               (fst (snd (processMessages rt config this tr)))
                               (snd (snd (processMessages rt config this tr)))))
                  = snd (snd (processMessages rt config this tr))
                    @ GetMessages (Some (Num (Max (createdAt rt ` set messages) + 1))) # rest)"
    if ne: "messages \<noteq> []" and dt: "\<forall>m \<in> set messages. rt_dateGetTime rt (m_timestamp m) \<noteq> NaN"
      and s: "sorted (map (createdAt rt) messages)"
  proof -
    from ne have "last messages \<in> set messages" by simp
    with dt obtain t where t: "rt_dateGetTime rt (m_timestamp (last messages)) = Num t"
      by (cases "rt_dateGetTime rt (m_timestamp (last messages))") auto
    then have "createdAt rt (last messages) = t" by (simp add: createdAt_def)
    moreover have "Max (set (map (createdAt rt) messages)) = last (map (createdAt rt) messages)"
      using ne s by (intro sorted_Max_last) simp_all
    ultimately have "Max (createdAt rt ` set messages) = t" using ne by (simp add: last_map)
    with b ne t have e: "ai_lastProcessedTime (fst (snd (processMessages rt config this tr)))
                = Num (Max (createdAt rt ` set messages) + 1)" by simp
    from d show ?thesis unfolding e using e by simp
  qed
  from a c show "(messages = []
        \<longrightarrow> ai_lastProcessedTime (fst (snd (processMessages rt config this tr)))
            = ai_lastProcessedTime this)
       \<and> (messages \<noteq> [] \<and> (\<forall>m \<in> set messages. rt_dateGetTime rt (m_timestamp m) \<noteq> NaN)
           \<and> sorted (map (createdAt rt) messages)
            \<longrightarrow> ai_lastProcessedTime (fst (snd (processMessages rt config this tr)))
                = Num (Max (createdAt rt ` set messages) + 1)
              \<and> (\<exists>rest. snd (snd (processMessages rt config
                               (fst (snd (processMessages rt config this tr)))
                               (snd (snd (processMessages rt config this tr)))))
                  = snd (snd (processMessages rt config this tr))
                    @ GetMessages (Some (Num (Max (createdAt rt ` set messages) + 1))) # rest))"
    by blast
qed

lemma fetch_examples:
  "getMessages sortedFetch (Some (ai_lastProcessedTime runningInteraction)) []
   = (Returns [messageAt3, messageAt5], [GetMessages (Some (Num 1704067200000))])"
  "getMessages unsortedFetch (Some (ai_lastProcessedTime runningInteraction)) []
   = (Returns [messageAt5, messageAt3], [GetMessages (Some (Num 1704067200000))])"
  "getMessages exampleRuntime (Some (ai_lastProcessedTime runningInteraction)) []
   = (Returns [], [GetMessages (Some (Num 1704067200000))])"
  by (simp_all add: getMessages_def sortedFetch_def unsortedFetch_def exampleRuntime_def
      runningInteraction_def)

lemma createdAt_examples:
  "rt_dateGetTime sortedFetch (m_timestamp messageAt3) = Num 1704067203000"
  "rt_dateGetTime sortedFetch (m_timestamp messageAt5) = Num 1704067205000"
  "rt_dateGetTime unsortedFetch (m_timestamp messageAt3) = Num 1704067203000"
  "rt_dateGetTime unsortedFetch (m_timestamp messageAt5) = Num 1704067205000"
  by (simp_all add: sortedFetch_def unsortedFetch_def exampleRuntime_def messageAt3_def
      messageAt5_def)

lemma shared_fetch:
  "getMessages sharedFetch (Some (ai_lastProcessedTime runningInteraction)) []
   = (Returns [messageAt3, messageAt5, messageAt5b], [GetMessages (Some (Num 1704067200000))])"
  by (simp add: getMessages_def sharedFetch_def exampleRuntime_def runningInteraction_def)

lemma shared_times:
  "rt_dateGetTime sharedFetch (m_timestamp messageAt3) = Num 1704067203000"
  "rt_dateGetTime sharedFetch (m_timestamp messageAt5) = Num 1704067205000"
  "rt_dateGetTime sharedFetch (m_timestamp messageAt5b) = Num 1704067205000"
  by (simp_all add: sharedFetch_def exampleRuntime_def messageAt3_def messageAt5_def
      messageAt5b_def)

theorem processMessages_checkpoint_witness:
  "ai_lastProcessedTime
     (fst (snd (processMessages sharedFetch exampleConfig runningInteraction [])))
   = Num 1704067205001
   \<and> (\<exists>rest. snd (snd (processMessages sharedFetch exampleConfig
                (fst (snd (processMessages sharedFetch exampleConfig runningInteraction [])))
                (snd (snd (processMessages sharedFetch exampleConfig runningInteraction [])))))
        = snd (snd (processMessages sharedFetch exampleConfig runningInteraction []))
          @ GetMessages (Some (Num 1704067205001)) # rest)
   \<and> ai_lastProcessedTime
       (fst (snd (processMessages exampleRuntime exampleConfig runningInteraction [])))
     = Num 1704067200000"
proof -
  have r: "ai_isRunning runningInteraction" by (simp add: runningInteraction_def)
  have m: "Max (createdAt sharedFetch ` set [messageAt3, messageAt5, messageAt5b])
           = 1704067205000"
    by (simp add: createdAt_def shared_times)
  have s: "sorted (map (createdAt sharedFetch) [messageAt3, messageAt5, messageAt5b])"
    by (simp add: createdAt_def shared_times)
  have d: "\<forall>m \<in> set [messageAt3, messageAt5, messageAt5b].
             rt_dateGetTime sharedFetch (m_timestamp m) \<noteq> NaN"
    by (simp add: shared_times)
  from processMessages_checkpoint
         [of runningInteraction sharedFetch "[]" "[messageAt3, messageAt5, messageAt5b]"
             "[GetMessages (Some (Num 1704067200000))]" exampleConfig]
       r shared_fetch s d
  have "ai_lastProcessedTime
     (fst (snd (processMessages sharedFetch exampleConfig runningInteraction [])))
     = Num (Max (createdAt sharedFetch ` set [messageAt3, messageAt5, messageAt5b]) + 1)
     \<and> (\<exists>rest. snd (snd (processMessages sharedFetch exampleConfig
                (fst (snd (processMessages sharedFetch exampleConfig runningInteraction [])))
                (snd (snd (processMessages sharedFetch exampleConfig runningInteraction [])))))
        = snd (snd (processMessages sharedFetch exampleConfig runningInteraction []))
          @ GetMessages (Some (Num (Max (createdAt sharedFetch `
                                   set [messageAt3, messageAt5, messageAt5b]) + 1))) # rest)"
    by blast
  then have 1: "ai_lastProcessedTime
     (fst (snd (processMessages sharedFetch exampleConfig runningInteraction [])))
     = Num 1704067205001
     \<and> (\<exists>rest. snd (snd (processMessages sharedFetch exampleConfig
                (fst (snd (processMessages sharedFetch exampleConfig runningInteraction [])))
                (snd (snd (processMessages sharedFetch exampleConfig runningInteraction [])))))
        = snd (snd (processMessages sharedFetch exampleConfig runningInteraction []))
          @ GetMessages (Some (Num 1704067205001)) # rest)" unfolding m by simp
  from processMessages_checkpoint
         [of runningInteraction exampleRuntime "[]" "[]"
             "[GetMessages (Some (Num 1704067200000))]" exampleConfig]
       r fetch_examples(3)
  have "ai_lastProcessedTime
       (fst (snd (processMessages exampleRuntime exampleConfig runningInteraction [])))
     = ai_lastProcessedTime runningInteraction" by blast
  then have 2: "ai_lastProcessedTime
       (fst (snd (processMessages exampleRuntime exampleConfig runningInteraction [])))
     = Num 1704067200000" by (simp add: runningInteraction_def)
  from 1 2 show ?thesis by blast
qed

text \<open>
  The order of the batch is an input condition: the code reads the time of the last
  message of the batch. For a batch that is not in ascending order, the message of
  second 5 before the message of second 3, the checkpoint is second 3 plus one
  millisecond.
\<close>

lemma processMessages_unsorted_batch:
  "fst (getMessages unsortedFetch (Some (ai_lastProcessedTime runningInteraction)) [])
     = Returns [messageAt5, messageAt3]
   \<and> Max (createdAt unsortedFetch ` set [messageAt5, messageAt3]) = 1704067205000
   \<and> ai_lastProcessedTime
       (fst (snd (processMessages unsortedFetch exampleConfig runningInteraction [])))
     = Num 1704067203001"
proof -
  have r: "ai_isRunning runningInteraction" by (simp add: runningInteraction_def)
  have m: "Max (createdAt unsortedFetch ` set [messageAt5, messageAt3]) = 1704067205000"
    by (simp add: createdAt_def createdAt_examples)
  have "ai_lastProcessedTime
       (fst (snd (processMessages unsortedFetch exampleConfig runningInteraction [])))
     = Num 1704067203001"
    using processMessages_lastProcessedTime[OF r fetch_examples(2), of exampleConfig]
    by (simp add: createdAt_examples)
  with m fetch_examples(2) show ?thesis by simp
qed

subsection \<open>The checkpoint across a restart\<close>

text \<open>
  Whatever the cache holds, the first fetch after the manager is initialised asks for
  the messages since the time at which the manager was built.
\<close>

lemma initialize_first_fetch:
  assumes "newAlfaFrensManager rt config tr0 = Inr manager"
    and "cacheGet rt cacheKey tr = (Returns cached, tr1)"
  shows "\<exists>rest. snd (snd (initialize rt config manager tr))
                = tr @ CacheGet cacheKey # GetMessages (Some (Num (rt_dateNow rt tr0))) # rest"
proof -
  from assms(1) have m: "mgr_isRunning manager = False"
      "mgr_aiInteraction manager = newAlfaFrensAIInteraction rt tr0"
    by (auto simp: newAlfaFrensManager_def split: if_splits)
  from assms(2) have t1: "tr1 = tr @ [CacheGet cacheKey]" by (simp add: cacheGet_def)
  let ?ai = "(newAlfaFrensAIInteraction rt tr0)\<lparr>ai_isRunning := True\<rparr>"
  have r: "ai_isRunning ?ai" "ai_lastProcessedTime ?ai = Num (rt_dateNow rt tr0)"
    by (simp_all add: newAlfaFrensAIInteraction_def)
  from processMessages_first_call[OF r(1), of rt config tr1] r(2)
  obtain rest where p: "snd (snd (processMessages rt config ?ai tr1))
      = tr1 @ GetMessages (Some (Num (rt_dateNow rt tr0))) # rest" by auto
  obtain out ai' tr2 where pm: "processMessages rt config ?ai tr1 = (out, ai', tr2)"
    by (cases "processMessages rt config ?ai tr1") auto
  with p have t2: "tr2 = tr1 @ GetMessages (Some (Num (rt_dateNow rt tr0))) # rest" by simp
  have "prefix tr2 (snd (snd (initialize rt config manager tr)))"
    using m assms(2) pm
    by (cases out)
       (auto simp: initialize_def aiStart_def Let_def newAlfaFrensAIInteraction_def
          sendMessage_def split: outcome.splits)
  then obtain more where "snd (snd (initialize rt config manager tr)) = tr2 @ more"
    unfolding prefix_def by blast
  with t1 t2 show ?thesis by simp
qed

lemma fresh_manager:
  "newAlfaFrensManager cachedRuntime exampleConfig [] = Inr freshManager"
  by (simp add: newAlfaFrensManager_def freshManager_def exampleConfig_def)

lemma fresh_checkpoint:
  "ai_lastProcessedTime (mgr_aiInteraction freshManager) = Num 1704067200000"
  by (simp add: freshManager_def newAlfaFrensAIInteraction_def cachedRuntime_def sortedFetch_def
      exampleRuntime_def)

lemma initialize_example:
  "initialize cachedRuntime exampleConfig freshManager []
   = (Returns (),
      \<lparr>mgr_isRunning = True, mgr_lastProcessedTime = Num 1704060000000,
       mgr_aiInteraction =
         \<lparr>ai_isRunning = True, ai_messageHistory = [messageAt3, messageAt5],
          ai_lastProcessedTime = Num 1704067205001, ai_sentMessageIds = {}\<rparr>\<rparr>,
      [CacheGet cacheKey, GetMessages (Some (Num 1704067200000)),
       CreateMemory (createAlfaFrensMemory cachedRuntime exampleConfig messageAt3),
       EvaluateMessage messageAt3, GenerateResponse messageAt3 [messageAt3, messageAt5],
       SendMessage ''Hello.'' (Some ''m-3''),
       CreateMemory (createAlfaFrensMemory cachedRuntime exampleConfig messageAt5),
       EvaluateMessage messageAt5, GenerateResponse messageAt5 [messageAt3, messageAt5],
       SendMessage ''Hello.'' (Some ''m-5''),
       SendMessage initialMessage None])"
  by (simp add: initialize_def aiStart_def processMessages_def Let_def cacheGet_def
      getMessages_def messageBatches.simps processMessage_def createMemory_def
      evaluateMessage_def generateResponseUtil_def sendMessage_def sliceLast_def
      freshManager_def newAlfaFrensAIInteraction_def cachedRuntime_def sortedFetch_def
      exampleRuntime_def exampleConfig_def messageAt3_def messageAt5_def)

text \<open>
  Claim C9 does not hold of the code. The cache holds a checkpoint of two hours ago;
  the manager is built and initialised. The first fetch asks for the messages since
  the time at which the manager was built, not since the cached checkpoint. The poll
  loop then advances its own checkpoint, and \<open>stop\<close> writes the manager's field to
  the cache, which still holds the value read at the start.
\<close>

theorem restart_ignores_cached_checkpoint:
  "newAlfaFrensManager cachedRuntime exampleConfig [] = Inr freshManager
   \<and> fst (cacheGet cachedRuntime cacheKey []) = Returns (Some (Num 1704060000000))
   \<and> take 2 (snd (snd (initialize cachedRuntime exampleConfig freshManager [])))
       = [CacheGet cacheKey, GetMessages (Some (Num 1704067200000))]
   \<and> ai_lastProcessedTime
       (mgr_aiInteraction (fst (snd (initialize cachedRuntime exampleConfig freshManager []))))
       = Num 1704067205001
   \<and> last (snd (snd (stop cachedRuntime
                       (fst (snd (initialize cachedRuntime exampleConfig freshManager [])))
                       (snd (snd (initialize cachedRuntime exampleConfig freshManager []))))))
       = CacheSet cacheKey (Num 1704060000000)"
proof -
  have c: "fst (cacheGet cachedRuntime cacheKey []) = Returns (Some (Num 1704060000000))"
    by (simp add: cacheGet_def cachedRuntime_def)
  have s: "last (snd (snd (stop cachedRuntime
                       (fst (snd (initialize cachedRuntime exampleConfig freshManager [])))
                       (snd (snd (initialize cachedRuntime exampleConfig freshManager []))))))
       = CacheSet cacheKey (Num 1704060000000)"
    unfolding initialize_example
    by (simp add: stop_def cacheSet_def Let_def cachedRuntime_def sortedFetch_def
        exampleRuntime_def)
  from fresh_manager c s show ?thesis
    unfolding initialize_example by simp
qed

subsection \<open>Generation, then validation\<close>

lemma generateLLMResponse_calls:
  "snd (generateLLMResponse rt context model traceId tr) = tr @ [GenerateText context model]"
  by (simp add: generateLLMResponse_def generateText_def Let_def split: outcome.splits)

lemma extractFacts_calls:
  "snd (extractFacts rt content tr) = tr @ [GenerateText (extractFactsPrompt content) SMALL]"
  by (simp add: extractFacts_def generateText_def
      split: outcome.splits option.splits sum.splits json.splits)

lemma validateFacts_results:
  "validateFacts rt facts d acc flag tr = (Returns (results, req), tr')
   \<Longrightarrow> (\<exists>new. results = acc @ new \<and> map r_fact new = facts
              \<and> req = (flag \<or> list_ex needsCorrection new))
       \<and> tr' = tr @ map (\<lambda>f. ValidateFact f d) facts"
proof (induction facts arbitrary: acc flag tr)
  case Nil
  then show ?case by simp
next
  case (Cons f facts)
  let ?tr1 = "tr @ [ValidateFact f d]"
  from Cons.prems obtain v where
    v: "validateFact rt f d tr = (Returns v, ?tr1)"
    by (cases "rt_validateFact_reply rt tr f d") (auto simp: validateFact_def)
  let ?r = "\<lparr>r_fact = f, r_confidence = v_confidence v, r_contradictions = v_contradictions v\<rparr>"
  let ?flag = "if length (v_contradictions v) > 0 \<or> v_confidence v < 0.7 then True else flag"
  from Cons.prems v have
    "validateFacts rt facts d (acc @ [?r]) ?flag ?tr1 = (Returns (results, req), tr')"
    by simp
  from Cons.IH[OF this] obtain new where
    n: "results = (acc @ [?r]) @ new" "map r_fact new = facts"
       "req = (?flag \<or> list_ex needsCorrection new)"
    and t: "tr' = ?tr1 @ map (\<lambda>f. ValidateFact f d) facts"
    by blast
  have "results = acc @ (?r # new) \<and> map r_fact (?r # new) = f # facts
        \<and> req = (flag \<or> list_ex needsCorrection (?r # new))"
    using n by (auto simp: needsCorrection_def)
  with t show ?case by (intro conjI exI[of _ "?r # new"]) simp_all
qed

lemma sublist_join: "x \<in> set xs \<Longrightarrow> sublist x (join sep xs)"
proof (induction sep xs rule: join.induct)
  case (1 sep)
  then show ?case by simp
next
  case (2 sep x')
  then show ?case by simp
next
  case (3 sep a b ys)
  show ?case
  proof (cases "x = a")
    case True
    then show ?thesis by simp
  next
    case False
    with 3 have "sublist x (join sep (b # ys))" by simp
    then obtain ps ss where "join sep (b # ys) = ps @ x @ ss" unfolding sublist_def by blast
    then have "join sep (a # b # ys) = (a @ sep @ ps) @ x @ ss" by simp
    then show ?thesis unfolding sublist_def by blast
  qed
qed

lemma generateResponse_flagged:
  assumes g: "generateLLMResponse rt prompt (case modelClass of Some c \<Rightarrow> c | None \<Rightarrow> MEDIUM)
       ''response'' tr = (Returns rawResponse, tr1)"
    and x: "extractFacts rt rawResponse tr1 = (Returns facts, tr2)" and ne: "facts \<noteq> []"
    and v: "validateFacts rt facts (dummyMessage rt rawResponse tr2) [] False tr2
       = (Returns (results, requiresCorrection), tr3)"
    and fl: "\<exists>r \<in> set results. r_contradictions r \<noteq> [] \<or> r_confidence r < 0.7"
  shows "generateResponse rt prompt modelClass tr
        = (case generateLLMResponse rt (revisedPrompt prompt results)
                  (case modelClass of Some c \<Rightarrow> c | None \<Rightarrow> MEDIUM)
                  ''corrected-response'' tr3 of
             (Hangs, tr4) \<Rightarrow> (Hangs, tr4)
           | (Throws e, tr4) \<Rightarrow> (Returns rawResponse, tr4)
           | (Returns correctedResponse, tr4) \<Rightarrow> (Returns correctedResponse, tr4))"
proof -
  from validateFacts_results[OF v]
  have "requiresCorrection = list_ex needsCorrection results" by auto
  with fl have requiresCorrection by (auto simp: list_ex_iff needsCorrection_def)
  with g x ne v show ?thesis by (simp add: generateResponse_def Let_def)
qed

text \<open>
  Claim C5, as amended. Suppose the first generation returns a raw response, facts are
  extracted from it, every fact is validated, and some fact has a contradiction or a
  confidence below 0.7. Then every extracted fact was validated once; the revised
  prompt starts with the original prompt and contains the correction line of every
  flagged fact, which names the fact and its contradictions or, when it has none, its
  confidence with two decimals; exactly one more call follows the validations, the
  generation from the revised prompt, so nothing is validated again and nothing is
  stored. When that generation returns, its text is the result as it is. When it
  fails, the result is the raw response.
\<close>

theorem generateResponse_correction:
  "generateLLMResponse rt prompt (case modelClass of Some c \<Rightarrow> c | None \<Rightarrow> MEDIUM)
       ''response'' tr = (Returns rawResponse, tr1)
   \<and> extractFacts rt rawResponse tr1 = (Returns facts, tr2) \<and> facts \<noteq> []
   \<and> validateFacts rt facts (dummyMessage rt rawResponse tr2) [] False tr2
       = (Returns (results, requiresCorrection), tr3)
   \<and> (\<exists>r \<in> set results. r_contradictions r \<noteq> [] \<or> r_confidence r < 0.7)
   \<longrightarrow> map r_fact results = facts
       \<and> tr3 = tr @ [GenerateText prompt (case modelClass of Some c \<Rightarrow> c | None \<Rightarrow> MEDIUM),
                     GenerateText (extractFactsPrompt rawResponse) SMALL]
                 @ map (\<lambda>f. ValidateFact f (dummyMessage rt rawResponse tr2)) facts
       \<and> snd (generateResponse rt prompt modelClass tr)
           = tr3 @ [GenerateText (revisedPrompt prompt results)
                      (case modelClass of Some c \<Rightarrow> c | None \<Rightarrow> MEDIUM)]
       \<and> prefix prompt (revisedPrompt prompt results)
       \<and> (\<forall>r \<in> set results. r_contradictions r \<noteq> [] \<or> r_confidence r < 0.7
             \<longrightarrow> sublist (correctionLine r) (revisedPrompt prompt results))
       \<and> (\<forall>r. r_contradictions r \<noteq> []
             \<longrightarrow> correctionLine r
                 = ''CORRECTION: '' @ DQ @ r_fact r @ DQ @ '' contradicts known facts: ''
                   @ join '', '' (r_contradictions r))
       \<and> (\<forall>r. r_contradictions r = []
             \<longrightarrow> correctionLine r
                 = ''CORRECTION: '' @ DQ @ r_fact r @ DQ @ '' has low confidence (''
                   @ toFixed2 (r_confidence r) @ '')'')
       \<and> (\<forall>corrected tr4.
             generateLLMResponse rt (revisedPrompt prompt results)
               (case modelClass of Some c \<Rightarrow> c | None \<Rightarrow> MEDIUM) ''corrected-response'' tr3
             = (Returns corrected, tr4)
             \<longrightarrow> generateResponse rt prompt modelClass tr = (Returns corrected, tr4))
       \<and> (\<forall>e tr4.
             generateLLMResponse rt (revisedPrompt prompt results)
               (case modelClass of Some c \<Rightarrow> c | None \<Rightarrow> MEDIUM) ''corrected-response'' tr3
             = (Throws e, tr4)
             \<longrightarrow> generateResponse rt prompt modelClass tr = (Returns rawResponse, tr4))"
proof
  let ?model = "case modelClass of Some c \<Rightarrow> c | None \<Rightarrow> MEDIUM"
  let ?d = "dummyMessage rt rawResponse tr2"
  let ?rev = "revisedPrompt prompt results"
  assume h: "generateLLMResponse rt prompt ?model ''response'' tr = (Returns rawResponse, tr1)
   \<and> extractFacts rt rawResponse tr1 = (Returns facts, tr2) \<and> facts \<noteq> []
   \<and> validateFacts rt facts ?d [] False tr2 = (Returns (results, requiresCorrection), tr3)
   \<and> (\<exists>r \<in> set results. r_contradictions r \<noteq> [] \<or> r_confidence r < 0.7)"
  then have g: "generateLLMResponse rt prompt ?model ''response'' tr = (Returns rawResponse, tr1)"
    and x: "extractFacts rt rawResponse tr1 = (Returns facts, tr2)" and ne: "facts \<noteq> []"
    and v: "validateFacts rt facts ?d [] False tr2 = (Returns (results, requiresCorrection), tr3)"
    and fl: "\<exists>r \<in> set results. r_contradictions r \<noteq> [] \<or> r_confidence r < 0.7"
    by blast+
  from g generateLLMResponse_calls[of rt prompt ?model "''response''" tr]
  have t1: "tr1 = tr @ [GenerateText prompt ?model]" by simp
  from x extractFacts_calls[of rt rawResponse tr1]
  have t2: "tr2 = tr1 @ [GenerateText (extractFactsPrompt rawResponse) SMALL]" by simp
  from validateFacts_results[OF v]
  have rs: "map r_fact results = facts" and rq: "requiresCorrection = list_ex needsCorrection results"
    and t3: "tr3 = tr2 @ map (\<lambda>f. ValidateFact f ?d) facts"
    by auto
  note gen = generateResponse_flagged[OF g x ne v fl]
  have a: "tr3 = tr @ [GenerateText prompt ?model,
                     GenerateText (extractFactsPrompt rawResponse) SMALL]
                 @ map (\<lambda>f. ValidateFact f ?d) facts"
    using t1 t2 t3 by simp
  have b: "snd (generateResponse rt prompt modelClass tr) = tr3 @ [GenerateText ?rev ?model]"
    unfolding gen
    using generateLLMResponse_calls[of rt ?rev ?model "''corrected-response''" tr3]
    by (cases "generateLLMResponse rt ?rev ?model ''corrected-response'' tr3")
       (auto split: outcome.splits)
  have c: "prefix prompt ?rev" by (simp add: revisedPrompt_def)
  have d: "sublist (correctionLine r) ?rev"
    if "r \<in> set results" "r_contradictions r \<noteq> [] \<or> r_confidence r < 0.7" for r
  proof -
    from that have "correctionLine r \<in> set (map correctionLine (filter needsCorrection results))"
      by (auto simp: needsCorrection_def)
    then have "sublist (correctionLine r) (correctionContext results)"
      unfolding correctionContext_def by (rule sublist_join)
    then obtain ps ss where "correctionContext results = ps @ correctionLine r @ ss"
      unfolding sublist_def by blast
    then have "?rev = (prompt @ NL @ NL
        @ ''Your initial response contains factual issues that need correction:'' @ NL @ ps)
        @ correctionLine r @ (ss @ NL @ NL @ ''Revised response:'')"
      by (simp add: revisedPrompt_def)
    then show ?thesis unfolding sublist_def by blast
  qed
  have e: "correctionLine r
                 = ''CORRECTION: '' @ DQ @ r_fact r @ DQ @ '' contradicts known facts: ''
                   @ join '', '' (r_contradictions r)" if "r_contradictions r \<noteq> []" for r
    using that by (simp add: correctionLine_def)
  have f: "correctionLine r
                 = ''CORRECTION: '' @ DQ @ r_fact r @ DQ @ '' has low confidence (''
                   @ toFixed2 (r_confidence r) @ '')''" if "r_contradictions r = []" for r
    using that by (simp add: correctionLine_def)
  have i: "generateResponse rt prompt modelClass tr = (Returns corrected, tr4)"
    if "generateLLMResponse rt ?rev ?model ''corrected-response'' tr3 = (Returns corrected, tr4)"
    for corrected tr4
    unfolding gen using that by simp
  have j: "generateResponse rt prompt modelClass tr = (Returns rawResponse, tr4)"
    if "generateLLMResponse rt ?rev ?model ''corrected-response'' tr3 = (Throws e, tr4)"
    for e tr4
    unfolding gen using that by simp
  from rs a b c d e f i j
  show "map r_fact results = facts
       \<and> tr3 = tr @ [GenerateText prompt ?model,
                     GenerateText (extractFactsPrompt rawResponse) SMALL]
                 @ map (\<lambda>f. ValidateFact f ?d) facts
       \<and> snd (generateResponse rt prompt modelClass tr) = tr3 @ [GenerateText ?rev ?model]
       \<and> prefix prompt ?rev
       \<and> (\<forall>r \<in> set results. r_contradictions r \<noteq> [] \<or> r_confidence r < 0.7
             \<longrightarrow> sublist (correctionLine r) ?rev)
       \<and> (\<forall>r. r_contradictions r \<noteq> []
             \<longrightarrow> correctionLine r
                 = ''CORRECTION: '' @ DQ @ r_fact r @ DQ @ '' contradicts known facts: ''
                   @ join '', '' (r_contradictions r))
       \<and> (\<forall>r. r_contradictions r = []
             \<longrightarrow> correctionLine r
                 = ''CORRECTION: '' @ DQ @ r_fact r @ DQ @ '' has low confidence (''
                   @ toFixed2 (r_confidence r) @ '')'')
       \<and> (\<forall>corrected tr4.
             generateLLMResponse rt ?rev ?model ''corrected-response'' tr3
             = (Returns corrected, tr4)
             \<longrightarrow> generateResponse rt prompt modelClass tr = (Returns corrected, tr4))
       \<and> (\<forall>e tr4.
             generateLLMResponse rt ?rev ?model ''corrected-response'' tr3
             = (Throws e, tr4)
             \<longrightarrow> generateResponse rt prompt modelClass tr = (Returns rawResponse, tr4))"
    by blast
qed

lemma spain_first:
  "generateLLMResponse correctingRuntime examplePrompt MEDIUM ''response'' []
   = (Returns spainResponse, [GenerateText examplePrompt MEDIUM])"
  "generateLLMResponse slowRetryRuntime examplePrompt MEDIUM ''response'' []
   = (Returns spainResponse, [GenerateText examplePrompt MEDIUM])"
  by (simp_all add: generateLLMResponse_def generateText_def Let_def timeoutMs_def
      correctingRuntime_def slowRetryRuntime_def exampleRuntime_def)

lemma spain_match: "matchJsonArray spainFacts = Some spainFacts"
  by (simp add: matchJsonArray_def spainFacts_def DQ_def)

lemma spain_valid:
  "validFacts [JString ''Paris is in Spain'', JString ''Paris has two million inhabitants'']
   = [''Paris is in Spain'', ''Paris has two million inhabitants'']"
  by (simp add: validFacts_def trim_def isWhiteSpace_def)

lemma spain_extract:
  "extractFacts correctingRuntime spainResponse [GenerateText examplePrompt MEDIUM]
   = (Returns [''Paris is in Spain'', ''Paris has two million inhabitants''],
      [GenerateText examplePrompt MEDIUM, GenerateText (extractFactsPrompt spainResponse) SMALL])"
  "extractFacts slowRetryRuntime spainResponse [GenerateText examplePrompt MEDIUM]
   = (Returns [''Paris is in Spain'', ''Paris has two million inhabitants''],
      [GenerateText examplePrompt MEDIUM, GenerateText (extractFactsPrompt spainResponse) SMALL])"
  by (simp_all add: extractFacts_def generateText_def correctingRuntime_def slowRetryRuntime_def
      exampleRuntime_def spain_match spain_valid)

lemma spain_validate:
  "validateFacts correctingRuntime [''Paris is in Spain'', ''Paris has two million inhabitants'']
     d [] False tr
   = (Returns (spainResults, True),
      tr @ [ValidateFact ''Paris is in Spain'' d,
            ValidateFact ''Paris has two million inhabitants'' d])"
  "validateFacts slowRetryRuntime [''Paris is in Spain'', ''Paris has two million inhabitants'']
     d [] False tr
   = (Returns (spainResults, True),
      tr @ [ValidateFact ''Paris is in Spain'' d,
            ValidateFact ''Paris has two million inhabitants'' d])"
  by (simp_all add: validateFact_def correctingRuntime_def slowRetryRuntime_def
      exampleRuntime_def spainResults_def)

lemma spain_flagged: "\<exists>r \<in> set spainResults. r_contradictions r \<noteq> [] \<or> r_confidence r < 0.7"
  by (simp add: spainResults_def)

lemma spain_context:
  "correctionContext spainResults
   = ''CORRECTION: '' @ DQ @ ''Paris is in Spain'' @ DQ
     @ '' contradicts known facts: Paris is in France'' @ NL
     @ ''CORRECTION: '' @ DQ @ ''Paris has two million inhabitants'' @ DQ
     @ '' has low confidence (0.50)''"
  by (simp add: correctionContext_def correctionLine_def needsCorrection_def spainResults_def
      toFixed2_def showNat.simps)

lemma spain_retry:
  "generateLLMResponse correctingRuntime context MEDIUM ''corrected-response''
     [a, b, c, d] = (Returns ''Paris is in France.'', [a, b, c, d, GenerateText context MEDIUM])"
  "generateLLMResponse slowRetryRuntime context MEDIUM ''corrected-response''
     [a, b, c, d] = (Throws (Error ''LLM request timed out''),
                     [a, b, c, d, GenerateText context MEDIUM])"
  by (simp_all add: generateLLMResponse_def generateText_def Let_def timeoutMs_def
      timeoutError_def correctingRuntime_def slowRetryRuntime_def exampleRuntime_def)

theorem generateResponse_correction_witness:
  "generateResponse correctingRuntime examplePrompt None []
   = (Returns ''Paris is in France.'',
      [GenerateText examplePrompt MEDIUM,
       GenerateText (extractFactsPrompt spainResponse) SMALL,
       ValidateFact ''Paris is in Spain''
         (dummyMessage correctingRuntime spainResponse
            [GenerateText examplePrompt MEDIUM,
             GenerateText (extractFactsPrompt spainResponse) SMALL]),
       ValidateFact ''Paris has two million inhabitants''
         (dummyMessage correctingRuntime spainResponse
            [GenerateText examplePrompt MEDIUM,
             GenerateText (extractFactsPrompt spainResponse) SMALL]),
       GenerateText (revisedPrompt examplePrompt spainResults) MEDIUM])
   \<and> revisedPrompt examplePrompt spainResults
     = examplePrompt @ NL @ NL
       @ ''Your initial response contains factual issues that need correction:'' @ NL
       @ ''CORRECTION: '' @ DQ @ ''Paris is in Spain'' @ DQ
       @ '' contradicts known facts: Paris is in France'' @ NL
       @ ''CORRECTION: '' @ DQ @ ''Paris has two million inhabitants'' @ DQ
       @ '' has low confidence (0.50)'' @ NL @ NL @ ''Revised response:''"
proof -
  let ?tr2 = "[GenerateText examplePrompt MEDIUM,
             GenerateText (extractFactsPrompt spainResponse) SMALL]"
  let ?d = "dummyMessage correctingRuntime spainResponse ?tr2"
  let ?tr3 = "?tr2 @ [ValidateFact ''Paris is in Spain'' ?d,
                      ValidateFact ''Paris has two million inhabitants'' ?d]"
  have g: "generateLLMResponse correctingRuntime examplePrompt
             (case None of Some c \<Rightarrow> c | None \<Rightarrow> MEDIUM) ''response'' []
           = (Returns spainResponse, [GenerateText examplePrompt MEDIUM])"
    using spain_first(1) by simp
  have ne: "[''Paris is in Spain'', ''Paris has two million inhabitants''] \<noteq> []" by simp
  have r: "generateLLMResponse correctingRuntime (revisedPrompt examplePrompt spainResults)
             (case None of Some c \<Rightarrow> c | None \<Rightarrow> MEDIUM) ''corrected-response'' ?tr3
           = (Returns ''Paris is in France.'',
              ?tr3 @ [GenerateText (revisedPrompt examplePrompt spainResults) MEDIUM])"
    using spain_retry(1) by simp
  from generateResponse_correction
         [of correctingRuntime examplePrompt None "[]" spainResponse
             "[GenerateText examplePrompt MEDIUM]"
             "[''Paris is in Spain'', ''Paris has two million inhabitants'']" ?tr2
             spainResults True ?tr3]
       g spain_extract(1) ne spain_validate(1)[of ?d ?tr2] spain_flagged r
  have "generateResponse correctingRuntime examplePrompt None []
        = (Returns ''Paris is in France.'',
           ?tr3 @ [GenerateText (revisedPrompt examplePrompt spainResults) MEDIUM])"
    by blast
  moreover have "revisedPrompt examplePrompt spainResults
     = examplePrompt @ NL @ NL
       @ ''Your initial response contains factual issues that need correction:'' @ NL
       @ ''CORRECTION: '' @ DQ @ ''Paris is in Spain'' @ DQ
       @ '' contradicts known facts: Paris is in France'' @ NL
       @ ''CORRECTION: '' @ DQ @ ''Paris has two million inhabitants'' @ DQ
       @ '' has low confidence (0.50)'' @ NL @ NL @ ''Revised response:''"
    unfolding revisedPrompt_def spain_context by simp
  ultimately show ?thesis by simp
qed

text \<open>
  The claim as stated has the regenerated text returned. When the generation from the
  revised prompt does not settle within 30 seconds, the regeneration was performed
  once, and the result is the raw response.
\<close>

theorem generateResponse_retry_counterexample:
  "generateResponse slowRetryRuntime examplePrompt None []
   = (Returns spainResponse,
      [GenerateText examplePrompt MEDIUM,
       GenerateText (extractFactsPrompt spainResponse) SMALL,
       ValidateFact ''Paris is in Spain''
         (dummyMessage slowRetryRuntime spainResponse
            [GenerateText examplePrompt MEDIUM,
             GenerateText (extractFactsPrompt spainResponse) SMALL]),
       ValidateFact ''Paris has two million inhabitants''
         (dummyMessage slowRetryRuntime spainResponse
            [GenerateText examplePrompt MEDIUM,
             GenerateText (extractFactsPrompt spainResponse) SMALL]),
       GenerateText (revisedPrompt examplePrompt spainResults) MEDIUM])
   \<and> spainResponse \<noteq> ''Paris is in France.''"
proof -
  let ?tr2 = "[GenerateText examplePrompt MEDIUM,
             GenerateText (extractFactsPrompt spainResponse) SMALL]"
  let ?d = "dummyMessage slowRetryRuntime spainResponse ?tr2"
  let ?tr3 = "?tr2 @ [ValidateFact ''Paris is in Spain'' ?d,
                      ValidateFact ''Paris has two million inhabitants'' ?d]"
  have g: "generateLLMResponse slowRetryRuntime examplePrompt
             (case None of Some c \<Rightarrow> c | None \<Rightarrow> MEDIUM) ''response'' []
           = (Returns spainResponse, [GenerateText examplePrompt MEDIUM])"
    using spain_first(2) by simp
  have ne: "[''Paris is in Spain'', ''Paris has two million inhabitants''] \<noteq> []" by simp
  have r: "generateLLMResponse slowRetryRuntime (revisedPrompt examplePrompt spainResults)
             (case None of Some c \<Rightarrow> c | None \<Rightarrow> MEDIUM) ''corrected-response'' ?tr3
           = (Throws (Error ''LLM request timed out''),
              ?tr3 @ [GenerateText (revisedPrompt examplePrompt spainResults) MEDIUM])"
    using spain_retry(2) by simp
  have "generateResponse slowRetryRuntime examplePrompt None []
        = (Returns spainResponse,
           ?tr3 @ [GenerateText (revisedPrompt examplePrompt spainResults) MEDIUM])"
    unfolding generateResponse_flagged
                [OF g spain_extract(2) ne spain_validate(2)[of ?d ?tr2] spain_flagged] r
    by simp
  then show ?thesis by (simp add: spainResponse_def)
qed

end
